theory Spec2Isabelle
  imports Complex_Main "HOL-Library.Word" "HOL-Library.Sublist"
begin

section \<open>Strings\<close>

text \<open>
  A JavaScript string is a sequence of 16-bit code units. ASCII literals of the source
  are written with \<open>ascii\<close>; the Korean literals are given by their code units.
\<close>

type_synonym jsstring = "16 word list"

definition ascii :: "string \<Rightarrow> jsstring" where
  "ascii s = map (\<lambda>c. of_nat (of_char c)) s"

text \<open>
  \<open>String.prototype.trim\<close>: strips the code units of ECMAScript's WhiteSpace and
  LineTerminator productions from both ends.
\<close>

definition is_whitespace :: "16 word \<Rightarrow> bool" where
  "is_whitespace c \<longleftrightarrow>
     c \<in> {0x0009, 0x000A, 0x000B, 0x000C, 0x000D, 0x0020, 0x00A0, 0x1680,
          0x2000, 0x2001, 0x2002, 0x2003, 0x2004, 0x2005, 0x2006, 0x2007, 0x2008, 0x2009,
          0x200A, 0x2028, 0x2029, 0x202F, 0x205F, 0x3000, 0xFEFF}"

definition trim :: "jsstring \<Rightarrow> jsstring" where
  "trim s = rev (dropWhile is_whitespace (rev (dropWhile is_whitespace s)))"

text \<open>
  The template literal \<^verbatim>\<open>`msg-${messageIdCounter++}`\<close> prints the counter in decimal.
  The counter is a whole number that starts at 0 and is only ever incremented; it is
  modelled as a natural number.
\<close>

definition digit :: "nat \<Rightarrow> 16 word" where
  "digit d = of_nat (48 + d)"

fun number_to_string :: "nat \<Rightarrow> jsstring" where
  "number_to_string n =
     (if n < 10 then [digit n] else number_to_string (n div 10) @ [digit (n mod 10)])"

declare number_to_string.simps [simp del]

definition msg_id :: "nat \<Rightarrow> jsstring" where
  "msg_id n = ascii ''msg-'' @ number_to_string n"

text \<open>The literals of \<^verbatim>\<open>chatbot.js\<close> that are not ASCII.\<close>

definition thinking_text :: jsstring where
  \<comment> \<open>the loading placeholder, "thinking..."\<close>
  "thinking_text = [0xC0DD, 0xAC01, 0x0020, 0xC911, 0x002E, 0x002E, 0x002E]"

definition retry_text :: jsstring where
  \<comment> \<open>"Sorry. An error occurred. Please try again."\<close>
  "retry_text =
     [0xC8C4, 0xC1A1, 0xD569, 0xB2C8, 0xB2E4, 0x002E, 0x0020, 0xC624, 0xB958, 0xAC00, 0x0020,
      0xBC1C, 0xC0DD, 0xD588, 0xC2B5, 0xB2C8, 0xB2E4, 0x002E, 0x0020, 0xB2E4, 0xC2DC, 0x0020,
      0xC2DC, 0xB3C4, 0xD574, 0xC8FC, 0xC138, 0xC694, 0x002E]"

definition report_error_text :: jsstring where
  \<comment> \<open>"Sorry. An error occurred while generating the report."\<close>
  "report_error_text =
     [0xC8C4, 0xC1A1, 0xD569, 0xB2C8, 0xB2E4, 0x002E, 0x0020, 0xB9AC, 0xD3EC, 0xD2B8, 0x0020,
      0xC0DD, 0xC131, 0x0020, 0xC911, 0x0020, 0xC624, 0xB958, 0xAC00, 0x0020, 0xBC1C, 0xC0DD,
      0xD588, 0xC2B5, 0xB2C8, 0xB2E4, 0x002E]"

definition default_username :: jsstring where
  "default_username = [0xC0AC, 0xC6A9, 0xC790]"

definition bot_image_alt :: jsstring where
  "bot_image_alt = [0xCC57, 0xBD07, 0x0020, 0xC774, 0xBBF8, 0xC9C0]"

text \<open>
  Truthiness of a value that is a string, \<^verbatim>\<open>undefined\<close> or \<^verbatim>\<open>null\<close>
  (\<open>None\<close> stands for both, which the source never tells apart): only a non-empty
  string is truthy. \<open>or_else a b\<close> is \<^verbatim>\<open>a || b\<close>.
\<close>

definition truthy :: "jsstring option \<Rightarrow> bool" where
  "truthy v = (case v of None \<Rightarrow> False | Some s \<Rightarrow> s \<noteq> [])"

definition or_else :: "jsstring option \<Rightarrow> jsstring option \<Rightarrow> jsstring option" where
  "or_else a b = (if truthy a then a else b)"

definition or_string :: "jsstring option \<Rightarrow> jsstring \<Rightarrow> jsstring" where
  \<comment> \<open>\<^verbatim>\<open>a || "literal"\<close>\<close>
  "or_string a b = (case a of None \<Rightarrow> b | Some s \<Rightarrow> if s = [] then b else s)"

definition or_null :: "jsstring option \<Rightarrow> jsstring option" where
  \<comment> \<open>\<^verbatim>\<open>a || null\<close>\<close>
  "or_null a = or_else a None"

section \<open>The document\<close>

text \<open>
  A DOM node is a text node or an element with a tag, an id (empty when it has none),
  a class list, attributes and children.
\<close>

datatype node =
    TextNode jsstring
  | Element (tag: string) (elem_id: jsstring) (classList: "string list")
      (attrs: "(string \<times> jsstring) list") (childNodes: "node list")

fun is_element :: "node \<Rightarrow> bool" where
  "is_element (TextNode s) = False"
| "is_element (Element t i c a ch) = True"

definition childElementCount :: "node list \<Rightarrow> nat" where
  "childElementCount ns = length (filter is_element ns)"

text \<open>
  Assigning \<^verbatim>\<open>textContent\<close> replaces the children of an element by one text node
  holding the string as it is (by none when the string is empty); reading it
  concatenates the text nodes below the element in tree order.
\<close>

definition set_textContent :: "jsstring \<Rightarrow> node list" where
  "set_textContent text = (if text = [] then [] else [TextNode text])"

fun text_nodes :: "node list \<Rightarrow> jsstring list" where
  "text_nodes [] = []"
| "text_nodes (TextNode s # ns) = s # text_nodes ns"
| "text_nodes (Element t i c a ch # ns) = text_nodes ch @ text_nodes ns"

definition textContent :: "node \<Rightarrow> jsstring" where
  "textContent n = concat (text_nodes [n])"

fun element_tags :: "node list \<Rightarrow> string list" where
  "element_tags [] = []"
| "element_tags (TextNode s # ns) = element_tags ns"
| "element_tags (Element t i c a ch # ns) = t # element_tags ch @ element_tags ns"

text \<open>The ids of the elements of a forest, in tree order.\<close>

fun ids :: "node list \<Rightarrow> jsstring list" where
  "ids [] = []"
| "ids (TextNode s # ns) = ids ns"
| "ids (Element t i c a ch # ns) = i # ids ch @ ids ns"

text \<open>
  \<^verbatim>\<open>document.getElementById(x)\<close> followed by \<^verbatim>\<open>elem.remove()\<close>: the first element
  in tree order whose id is \<open>x\<close> is taken out of its parent; nothing happens when there
  is none. No element has the empty string as its id.
\<close>

fun remove_by_id :: "jsstring \<Rightarrow> node list \<Rightarrow> node list" where
  "remove_by_id x [] = []"
| "remove_by_id x (TextNode s # ns) = TextNode s # remove_by_id x ns"
| "remove_by_id x (Element t i c a ch # ns) =
     (if i = x \<and> x \<noteq> [] then ns
      else if x \<in> set (ids ch) then Element t i c a (remove_by_id x ch) # ns
      else Element t i c a ch # remove_by_id x ns)"

text \<open>
  \<^verbatim>\<open>classList.add(c)\<close> on a class list.
\<close>

definition add_class :: "string \<Rightarrow> string list \<Rightarrow> string list" where
  "add_class c cs = (if c \<in> set cs then cs else cs @ [c])"

definition remove_class :: "string \<Rightarrow> string list \<Rightarrow> string list" where
  "remove_class c cs = filter (\<lambda>d. d \<noteq> c) cs"

text \<open>
  The character image of the side panel (\<^verbatim>\<open>#character-image\<close>): its \<^verbatim>\<open>src\<close>, its
  class list, its \<^verbatim>\<open>style.display\<close>, and whether \<^verbatim>\<open>onerror\<close>/\<^verbatim>\<open>onload\<close> handlers
  are installed.
\<close>

record image_elem =
  img_src :: jsstring
  img_classes :: "string list"
  img_display :: string
  img_handlers :: bool

text \<open>
  A request handed to \<^verbatim>\<open>fetch\<close>: the URL, the method, the content type and the object
  given to \<^verbatim>\<open>JSON.stringify\<close>. \<^verbatim>\<open>username\<close> is \<open>None\<close> when the chat area has no
  \<^verbatim>\<open>data-username\<close> attribute (the property is then left out of the body).
\<close>

record request =
  req_url :: string
  req_method :: string
  req_content_type :: string
  req_message :: jsstring
  req_username :: "jsstring option"

definition chat_request :: "jsstring \<Rightarrow> jsstring option \<Rightarrow> request" where
  "chat_request message user =
     \<lparr>req_url = ''/api/chat'', req_method = ''POST'', req_content_type = ''application/json'',
      req_message = message, req_username = user\<rparr>"

text \<open>Callbacks handed to \<^verbatim>\<open>setTimeout\<close>, with their delay in milliseconds.\<close>

datatype callback = InitialMessage | ReportRequest

text \<open>
  The state of the page that the script reads and writes: \<^verbatim>\<open>username\<close>, the children of
  \<^verbatim>\<open>#chat-log\<close>, the value of the input field, the id counter, the image and the name of
  the side panel, the address assigned to \<^verbatim>\<open>window.location.href\<close> (\<open>None\<close> while none
  has been assigned), the requests issued so far, and the timers set so far. An element
  that the page does not have is \<open>None\<close>.
\<close>

record page =
  username :: "jsstring option"
  chatLog :: "node list option"
  userMessageInput :: "jsstring option"
  messageIdCounter :: nat
  characterImage :: "image_elem option"
  characterName :: "string list option"
  location_href :: "jsstring option"
  requests :: "request list"
  timers :: "(callback \<times> nat) list"

text \<open>
  \<^verbatim>\<open>const username = chatArea ? chatArea.dataset.username : "..."\<close>: the argument is \<open>None\<close>
  when there is no \<^verbatim>\<open>.chat-area\<close>, and otherwise its \<^verbatim>\<open>data-username\<close>, if any.
\<close>

definition initial_username :: "jsstring option option \<Rightarrow> jsstring option" where
  "initial_username chatArea =
     (case chatArea of None \<Rightarrow> Some default_username | Some dataset_username \<Rightarrow> dataset_username)"

section \<open>Appending and removing messages\<close>

datatype sender = User | Bot

text \<open>\<open>appendMessage\<close> is only called with the literals \<^verbatim>\<open>"user"\<close> and \<^verbatim>\<open>"bot"\<close>.\<close>

fun sender_class :: "sender \<Rightarrow> string" where
  "sender_class User = ''user''"
| "sender_class Bot = ''bot''"

text \<open>
  \<open>updateCharacterImage\<close> (first \<^verbatim>\<open>chatbot.js\<close>, lines 81-112). The two handlers it
  installs run when the browser later reports that the image failed or loaded.
\<close>

definition updateCharacterImage :: "jsstring option \<Rightarrow> page \<Rightarrow> page" where
  "updateCharacterImage imageSrc st =
     (case characterImage st of
        None \<Rightarrow> st
      | Some img \<Rightarrow>
          (case imageSrc of
             None \<Rightarrow> st
           | Some s \<Rightarrow>
               if s = [] then st
               else st\<lparr>characterImage :=
                         Some (img\<lparr>img_src := s, img_classes := add_class ''show'' (img_classes img),
                                   img_handlers := True\<rparr>),
                       characterName := map_option (add_class ''show'') (characterName st)\<rparr>))"

definition characterImage_onerror :: "page \<Rightarrow> page" where
  "characterImage_onerror st =
     st\<lparr>characterImage := map_option (\<lambda>img. img\<lparr>img_display := ''none''\<rparr>) (characterImage st),
        characterName := map_option (remove_class ''show'') (characterName st)\<rparr>"

definition characterImage_onload :: "page \<Rightarrow> page" where
  "characterImage_onload st =
     st\<lparr>characterImage := map_option (\<lambda>img. img\<lparr>img_display := ''block''\<rparr>) (characterImage st),
        characterName := map_option (add_class ''show'') (characterName st)\<rparr>"

text \<open>
  The message element that \<open>appendMessage\<close> builds: a \<^verbatim>\<open>div\<close> with the classes
  \<^verbatim>\<open>message\<close> and the sender, the fresh id, and the given children.
\<close>

definition message_elem :: "jsstring \<Rightarrow> sender \<Rightarrow> node list \<Rightarrow> node" where
  "message_elem messageId sender content =
     Element ''div'' messageId [''message'', sender_class sender] [] content"

definition text_container :: "jsstring \<Rightarrow> node" where
  "text_container text = Element ''div'' [] [''bot-text-container''] [] (set_textContent text)"

definition append_to_log :: "node \<Rightarrow> page \<Rightarrow> page" where
  \<comment> \<open>\<^verbatim>\<open>if (chatLog) { chatLog.appendChild(messageElem); ... }\<close>\<close>
  "append_to_log messageElem st =
     (case chatLog st of
        None \<Rightarrow> st
      | Some nodes \<Rightarrow> st\<lparr>chatLog := Some (nodes @ [messageElem])\<rparr>)"

text \<open>
  \<open>appendMessage\<close> of the first \<^verbatim>\<open>chatbot.js\<close> (lines 115-143): an image goes to the
  side panel, the message holds the text only. It returns the id and the new state.
\<close>

definition appendMessage :: "sender \<Rightarrow> jsstring \<Rightarrow> jsstring option \<Rightarrow> page \<Rightarrow> jsstring \<times> page" where
  "appendMessage sender text imageSrc st =
     (let messageId = msg_id (messageIdCounter st);
          st1 = st\<lparr>messageIdCounter := messageIdCounter st + 1\<rparr>
      in case sender of
           User \<Rightarrow> (messageId, append_to_log (message_elem messageId sender (set_textContent text)) st1)
         | Bot \<Rightarrow>
             (let st2 = (if truthy imageSrc then updateCharacterImage imageSrc st1 else st1)
              in (messageId, append_to_log (message_elem messageId sender [text_container text]) st2)))"

text \<open>
  \<open>appendMessage\<close> of the second \<^verbatim>\<open>chatbot.js\<close> (lines 314-360): an image becomes
  an \<^verbatim>\<open>img\<close> child of the message, before the text.
\<close>

definition bot_image :: "jsstring \<Rightarrow> node" where
  "bot_image imageSrc =
     Element ''img'' [] [''bot-big-img''] [(''src'', imageSrc), (''alt'', bot_image_alt)] []"

definition appendMessage_v2 :: "sender \<Rightarrow> jsstring \<Rightarrow> jsstring option \<Rightarrow> page \<Rightarrow> jsstring \<times> page" where
  "appendMessage_v2 sender text imageSrc st =
     (let messageId = msg_id (messageIdCounter st);
          st1 = st\<lparr>messageIdCounter := messageIdCounter st + 1\<rparr>
      in case sender of
           User \<Rightarrow> (messageId, append_to_log (message_elem messageId sender (set_textContent text)) st1)
         | Bot \<Rightarrow>
             (let images = (case imageSrc of
                              None \<Rightarrow> []
                            | Some s \<Rightarrow> if s = [] then [] else [bot_image s])
              in (messageId,
                  append_to_log (message_elem messageId sender (images @ [text_container text])) st1)))"

text \<open>\<open>removeMessage\<close> (lines 146-151 and, word for word, 363-368).\<close>

definition removeMessage :: "jsstring \<Rightarrow> page \<Rightarrow> page" where
  "removeMessage messageId st =
     (case chatLog st of
        None \<Rightarrow> st
      | Some nodes \<Rightarrow> st\<lparr>chatLog := Some (remove_by_id messageId nodes)\<rparr>)"

section \<open>One turn of the chat\<close>

text \<open>
  The object that \<^verbatim>\<open>response.json()\<close> yields, typed as the interface and the source's
  comment give it: \<^verbatim>\<open>reply\<close> and \<^verbatim>\<open>image\<close> are strings, \<^verbatim>\<open>needs_report_generation\<close> is a
  boolean, \<^verbatim>\<open>program_recommendation\<close> is an object with three strings; each of them
  may be missing (\<open>None\<close>).
\<close>

record recommendation =
  rec_image :: "jsstring option"
  rec_message :: "jsstring option"
  rec_sentiment :: "jsstring option"

record chat_data =
  data_reply :: "jsstring option"
  data_image :: "jsstring option"
  needs_report_generation :: "bool option"
  program_recommendation :: "recommendation option"

text \<open>
  How a \<^verbatim>\<open>fetch\<close> settles: it rejects (with some reason), or it resolves with a
  response that has its \<^verbatim>\<open>ok\<close> flag, its status, and its body, \<open>None\<close> when
  \<^verbatim>\<open>response.json()\<close> does not yield an object to read.
\<close>

datatype fetch_result =
    Rejected jsstring
  | Response bool nat "chat_data option"

text \<open>
  \<open>sendMessage\<close> is an \<^verbatim>\<open>async\<close> function: it runs up to the \<^verbatim>\<open>await fetch(...)\<close>,
  and is resumed when the fetch has settled. Up to there it has returned early
  (\<^verbatim>\<open>if (!message) return\<close>), or thrown (there is no input field to read), or it waits,
  holding the id of the loading message.
\<close>

datatype started = Returned page | Threw page | Awaiting jsstring page

definition show_loading_and_fetch :: "jsstring \<Rightarrow> page \<Rightarrow> started" where
  \<comment> \<open>lines 26-37\<close>
  "show_loading_and_fetch message st =
     (case appendMessage Bot thinking_text None st of
        (loadingId, st1) \<Rightarrow>
          Awaiting loadingId (st1\<lparr>requests := requests st1 @ [chat_request message (username st1)]\<rparr>))"

definition sendMessage_begin :: "bool \<Rightarrow> page \<Rightarrow> started" where
  \<comment> \<open>lines 13-37\<close>
  "sendMessage_begin isInitial st =
     (if isInitial then show_loading_and_fetch (ascii ''init'') st
      else case userMessageInput st of
             None \<Rightarrow> Threw st
           | Some v \<Rightarrow>
               (let message = trim v
                in if message = [] then Returned st
                   else show_loading_and_fetch message
                          ((snd (appendMessage User message None st))\<lparr>userMessageInput := Some []\<rparr>)))"

definition show_error :: "jsstring \<Rightarrow> page \<Rightarrow> page" where
  \<comment> \<open>the \<^verbatim>\<open>catch\<close> block, lines 73-77\<close>
  "show_error loadingId st = snd (appendMessage Bot retry_text None (removeMessage loadingId st))"

text \<open>
  The address the redirect assigns. \<open>serialize\<close> is \<^verbatim>\<open>URLSearchParams.prototype.toString\<close>,
  the browser's form-urlencoding of the name-value pairs.
\<close>

definition recommendation_url ::
  "((string \<times> jsstring) list \<Rightarrow> jsstring) \<Rightarrow> recommendation \<Rightarrow> chat_data \<Rightarrow> jsstring" where
  \<comment> \<open>lines 51-59\<close>
  "recommendation_url serialize r d =
     ascii ''/program_recommendation?'' @
     serialize [(''image'', or_string (or_else (rec_image r) (data_image d)) []),
                (''message'', or_string (or_else (rec_message r) (data_reply d)) []),
                (''sentiment'', or_string (rec_sentiment r) (ascii ''positive''))]"

definition sendMessage_resume ::
  "((string \<times> jsstring) list \<Rightarrow> jsstring) \<Rightarrow> jsstring \<Rightarrow> fetch_result \<Rightarrow> page \<Rightarrow> page" where
  \<comment> \<open>lines 39-77\<close>
  "sendMessage_resume serialize loadingId result st =
     (case result of
        Rejected reason \<Rightarrow> show_error loadingId st
      | Response ok status body \<Rightarrow>
          if \<not> ok then show_error loadingId st
          else (case body of
                  None \<Rightarrow> show_error loadingId st
                | Some d \<Rightarrow>
                    (let st1 = removeMessage loadingId st
                     in case program_recommendation d of
                          Some r \<Rightarrow> st1\<lparr>location_href := Some (recommendation_url serialize r d)\<rparr>
                        | None \<Rightarrow>
                            snd (appendMessage Bot (or_string (data_reply d) [])
                                   (or_null (data_image d)) st1))))"

text \<open>A whole call of \<open>sendMessage\<close>, when nothing else runs while it waits.\<close>

definition sendMessage ::
  "((string \<times> jsstring) list \<Rightarrow> jsstring) \<Rightarrow> bool \<Rightarrow> fetch_result \<Rightarrow> page \<Rightarrow> page" where
  "sendMessage serialize isInitial result st =
     (case sendMessage_begin isInitial st of
        Returned st1 \<Rightarrow> st1
      | Threw st1 \<Rightarrow> st1
      | Awaiting loadingId st1 \<Rightarrow> sendMessage_resume serialize loadingId result st1)"

text \<open>
  The \<^verbatim>\<open>load\<close> handler (lines 208-218) sets a timer of 500 ms; its callback asks for the
  initial message when the chat log exists and has no element child.
\<close>

definition on_load :: "page \<Rightarrow> page" where
  "on_load st = st\<lparr>timers := timers st @ [(InitialMessage, 500)]\<rparr>"

definition initial_message_callback :: "page \<Rightarrow> started" where
  "initial_message_callback st =
     (case chatLog st of
        None \<Rightarrow> Returned st
      | Some nodes \<Rightarrow> if childElementCount nodes = 0 then sendMessage_begin True st else Returned st)"

subsection \<open>The second \<^verbatim>\<open>chatbot.js\<close>: the report follow-up\<close>

definition show_loading_and_fetch_v2 :: "jsstring \<Rightarrow> page \<Rightarrow> started" where
  \<comment> \<open>lines 244-255\<close>
  "show_loading_and_fetch_v2 message st =
     (case appendMessage_v2 Bot thinking_text None st of
        (loadingId, st1) \<Rightarrow>
          Awaiting loadingId (st1\<lparr>requests := requests st1 @ [chat_request message (username st1)]\<rparr>))"

definition sendMessage_begin_v2 :: "bool \<Rightarrow> page \<Rightarrow> started" where
  \<comment> \<open>lines 231-255\<close>
  "sendMessage_begin_v2 isInitial st =
     (if isInitial then show_loading_and_fetch_v2 (ascii ''init'') st
      else case userMessageInput st of
             None \<Rightarrow> Threw st
           | Some v \<Rightarrow>
               (let message = trim v
                in if message = [] then Returned st
                   else show_loading_and_fetch_v2 message
                          ((snd (appendMessage_v2 User message None st))\<lparr>userMessageInput := Some []\<rparr>)))"

definition show_error_v2 :: "jsstring \<Rightarrow> page \<Rightarrow> page" where
  \<comment> \<open>the \<^verbatim>\<open>catch\<close> block, lines 306-310\<close>
  "show_error_v2 loadingId st =
     snd (appendMessage_v2 Bot retry_text None (removeMessage loadingId st))"

definition sendMessage_resume_v2 :: "jsstring \<Rightarrow> fetch_result \<Rightarrow> page \<Rightarrow> page" where
  \<comment> \<open>lines 257-310\<close>
  "sendMessage_resume_v2 loadingId result st =
     (case result of
        Rejected reason \<Rightarrow> show_error_v2 loadingId st
      | Response ok status body \<Rightarrow>
          if \<not> ok then show_error_v2 loadingId st
          else (case body of
                  None \<Rightarrow> show_error_v2 loadingId st
                | Some d \<Rightarrow>
                    (let st1 = removeMessage loadingId st;
                         st2 = snd (appendMessage_v2 Bot (or_string (data_reply d) [])
                                      (or_null (data_image d)) st1)
                     in if needs_report_generation d = Some True
                        then st2\<lparr>timers := timers st2 @ [(ReportRequest, 500)]\<rparr>
                        else st2)))"

definition sendMessage_v2 :: "bool \<Rightarrow> fetch_result \<Rightarrow> page \<Rightarrow> page" where
  "sendMessage_v2 isInitial result st =
     (case sendMessage_begin_v2 isInitial st of
        Returned st1 \<Rightarrow> st1
      | Threw st1 \<Rightarrow> st1
      | Awaiting loadingId st1 \<Rightarrow> sendMessage_resume_v2 loadingId result st1)"

text \<open>
  The callback of the report timer (lines 280-291) shows a second loading message and
  issues the follow-up request; \<open>report_settled\<close> is its promise chain (lines 292-303),
  which does not look at the response's \<^verbatim>\<open>ok\<close> flag.
\<close>

definition report_callback :: "page \<Rightarrow> jsstring \<times> page" where
  "report_callback st =
     (case appendMessage_v2 Bot thinking_text None st of
        (loadingId2, st1) \<Rightarrow>
          (loadingId2, st1\<lparr>requests := requests st1 @ [chat_request [] (username st1)]\<rparr>))"

definition report_settled :: "jsstring \<Rightarrow> fetch_result \<Rightarrow> page \<Rightarrow> page" where
  "report_settled loadingId2 result st =
     (let failed = snd (appendMessage_v2 Bot report_error_text None (removeMessage loadingId2 st))
      in case result of
           Rejected reason \<Rightarrow> failed
         | Response ok status body \<Rightarrow>
             (case body of
                None \<Rightarrow> failed
              | Some d \<Rightarrow>
                  snd (appendMessage_v2 Bot (or_string (data_reply d) []) (or_null (data_image d))
                         (removeMessage loadingId2 st))))"



text \<open>
  The ids of the chat log are in order when no id occurs twice in it and every id of
  the form \<^verbatim>\<open>msg-N\<close> in it has been handed out already.
\<close>

definition log_ok :: "page \<Rightarrow> bool" where
  "log_ok st \<longleftrightarrow>
     (case chatLog st of
        None \<Rightarrow> True
      | Some nodes \<Rightarrow>
          distinct (filter (\<lambda>i. i \<noteq> []) (ids nodes)) \<and>
          (\<forall>k. msg_id k \<in> set (ids nodes) \<longrightarrow> k < messageIdCounter st))"

section \<open>The analysis side\<close>

text \<open>
  Modelled from the spec: the score aggregator (\<^verbatim>\<open>_calculate_regret_index\<close> of
  \<^verbatim>\<open>services/chatbot_service.py\<close>) is not among the sources; the implementation guide
  only names the five analyses and their weights (30, 25, 20, 15 and 10 percent). Scores
  are real numbers here, not floating-point numbers.
\<close>

datatype dimension = Attachment | Regret | Unresolved | Comparison | Avoidance

definition dimensions :: "dimension list" where
  "dimensions = [Attachment, Regret, Unresolved, Comparison, Avoidance]"

fun weight :: "dimension \<Rightarrow> real" where
  "weight Attachment = 30 / 100"
| "weight Regret = 25 / 100"
| "weight Unresolved = 20 / 100"
| "weight Comparison = 15 / 100"
| "weight Avoidance = 10 / 100"

definition valid_scores :: "(dimension \<Rightarrow> real) \<Rightarrow> bool" where
  "valid_scores s \<longleftrightarrow> list_all (\<lambda>d. 0 \<le> s d \<and> s d \<le> 100) dimensions"

definition composite_index :: "(dimension \<Rightarrow> real) \<Rightarrow> real" where
  "composite_index s = sum_list (map (\<lambda>d. weight d * s d) dimensions)"

text \<open>
  Modelled from the spec: the tier lookup of the report is not among the sources either;
  the guide shows its first two branches (\<^verbatim>\<open>if total <= 20\<close>, \<^verbatim>\<open>elif total <= 40\<close>) and
  the table of the five bands. The lookup goes through the upper bounds in ascending
  order; \<open>band_from\<close> and \<open>band_to\<close> are the ends of the bands as the table prints them.
\<close>

datatype tier = Settled | Lingering | Moderate | Strong | VeryStrong

definition tier_of :: "real \<Rightarrow> tier" where
  "tier_of index =
     (if index \<le> 20 then Settled
      else if index \<le> 40 then Lingering
      else if index \<le> 60 then Moderate
      else if index \<le> 80 then Strong
      else VeryStrong)"

fun band_from :: "tier \<Rightarrow> int" where
  "band_from Settled = 0"
| "band_from Lingering = 21"
| "band_from Moderate = 41"
| "band_from Strong = 61"
| "band_from VeryStrong = 81"

fun band_to :: "tier \<Rightarrow> int" where
  "band_to Settled = 20"
| "band_to Lingering = 40"
| "band_to Moderate = 60"
| "band_to Strong = 80"
| "band_to VeryStrong = 100"

fun tier_rank :: "tier \<Rightarrow> nat" where
  "tier_rank Settled = 0"
| "tier_rank Lingering = 1"
| "tier_rank Moderate = 2"
| "tier_rank Strong = 3"
| "tier_rank VeryStrong = 4"

text \<open>
  A value is in a band when the band's upper bound admits it and no lower band's does.
\<close>

definition tiers :: "tier list" where
  "tiers = [Settled, Lingering, Moderate, Strong, VeryStrong]"

definition in_band :: "tier \<Rightarrow> real \<Rightarrow> bool" where
  "in_band t x \<longleftrightarrow>
     x \<le> real_of_int (band_to t) \<and>
     list_all (\<lambda>u. tier_rank u < tier_rank t \<longrightarrow> real_of_int (band_to u) < x) tiers"

text \<open>
  Modelled from the spec: the retriever (\<^verbatim>\<open>_search_similar\<close> of
  \<^verbatim>\<open>services/chatbot_service.py\<close>) is not among the sources; the guide only shows a call
  of it, with a threshold and a \<^verbatim>\<open>top_k\<close>. As the spec words it, \<open>retrieve\<close> computes the
  similarity between the query's embedding and every indexed passage's embedding, keeps
  the passages whose similarity is at least the threshold, sorts them by similarity,
  descending, and truncates to \<open>top_k\<close>. The embedding of a text and the similarity of
  two embeddings are parameters. A retrieved entry is a passage's text, its similarity
  and its metadata.
\<close>

record 'e passage =
  passage_text :: string
  passage_embedding :: 'e
  passage_metadata :: string

type_synonym retrieved = "string \<times> real \<times> string"

definition score :: "retrieved \<Rightarrow> real" where
  "score h = fst (snd h)"

definition scored :: "('e \<Rightarrow> 'e \<Rightarrow> real) \<Rightarrow> 'e \<Rightarrow> 'e passage \<Rightarrow> retrieved" where
  "scored sim q p = (passage_text p, sim q (passage_embedding p), passage_metadata p)"

definition retrieve ::
  "(string \<Rightarrow> 'e) \<Rightarrow> ('e \<Rightarrow> 'e \<Rightarrow> real) \<Rightarrow> 'e passage list \<Rightarrow> string \<Rightarrow> nat \<Rightarrow> real \<Rightarrow>
   retrieved list" where
  "retrieve embedder sim passages query top_k threshold =
     (let q = embedder query;
          all_scored = map (scored sim q) passages;
          kept = filter (\<lambda>h. threshold \<le> score h) all_scored;
          ranked = sort_key (\<lambda>h. - score h) kept
      in take top_k ranked)"

section \<open>Auxiliary notions\<close>

text \<open>The number that a string of decimal digits denotes.\<close>

definition decimal_value :: "jsstring \<Rightarrow> nat" where
  "decimal_value s = foldl (\<lambda>a c. 10 * a + (unat c - 48)) 0 s"


text \<open>The children that \<open>appendMessage\<close> gives to a message.\<close>

fun message_content :: "sender \<Rightarrow> jsstring \<Rightarrow> node list" where
  "message_content User text = set_textContent text"
| "message_content Bot text = [text_container text]"

text \<open>
  Example pages: one just loaded, with an empty chat log, and the same page once a user
  message and the loading message have been appended.
\<close>

definition fresh_page :: page where
  "fresh_page =
     \<lparr>username = Some (ascii ''mina''), chatLog = Some [], userMessageInput = Some (ascii '' hello ''),
      messageIdCounter = 0,
      characterImage = Some \<lparr>img_src = [], img_classes = [], img_display = [], img_handlers = False\<rparr>,
      characterName = Some [], location_href = None, requests = [], timers = []\<rparr>"

definition waiting_page :: page where
  "waiting_page =
     snd (appendMessage Bot thinking_text None (snd (appendMessage User (ascii ''hello'') None fresh_page)))"

fun message_content_v2 :: "sender \<Rightarrow> jsstring \<Rightarrow> jsstring option \<Rightarrow> node list" where
  "message_content_v2 User text imageSrc = set_textContent text"
| "message_content_v2 Bot text imageSrc =
     (case imageSrc of None \<Rightarrow> [] | Some s \<Rightarrow> if s = [] then [] else [bot_image s]) @
     [text_container text]"

text \<open>The loading message and the message of the \<^verbatim>\<open>catch\<close> block, as elements.\<close>

definition loading_elem :: "jsstring \<Rightarrow> node" where
  "loading_elem loadingId = message_elem loadingId Bot [text_container thinking_text]"

definition retry_elem :: "jsstring \<Rightarrow> node" where
  "retry_elem messageId = message_elem messageId Bot [text_container retry_text]"

text \<open>A send attempt fails when the fetch rejects or the response is not OK.\<close>

fun fetch_failed :: "fetch_result \<Rightarrow> bool" where
  "fetch_failed (Rejected reason) = True"
| "fetch_failed (Response ok status body) = (\<not> ok)"

text \<open>Whether a settled fetch delivers an object that has a \<^verbatim>\<open>program_recommendation\<close>.\<close>

fun delivers_recommendation :: "fetch_result \<Rightarrow> bool" where
  "delivers_recommendation (Rejected reason) = False"
| "delivers_recommendation (Response ok status body) =
     (case body of None \<Rightarrow> False | Some d \<Rightarrow> ok \<and> program_recommendation d \<noteq> None)"

text \<open>
  Example inputs: a serializer that joins names and values without escaping, a reply
  that asks for the report, a reply that carries a recommendation, and a reply without
  either.
\<close>

fun plain_serialize :: "(string \<times> jsstring) list \<Rightarrow> jsstring" where
  "plain_serialize [] = []"
| "plain_serialize ((k, v) # ps) = ascii k @ ascii ''='' @ v @ ascii ''&'' @ plain_serialize ps"

definition report_flag_data :: chat_data where
  "report_flag_data =
     \<lparr>data_reply = Some (ascii ''one moment''), data_image = None,
      needs_report_generation = Some True, program_recommendation = None\<rparr>"

definition recommendation_data :: chat_data where
  "recommendation_data =
     \<lparr>data_reply = Some (ascii ''see this''), data_image = Some (ascii ''/static/pd.png''),
      needs_report_generation = Some True,
      program_recommendation =
        Some \<lparr>rec_image = None, rec_message = Some (ascii ''try it''), rec_sentiment = None\<rparr>\<rparr>"

definition plain_data :: chat_data where
  "plain_data =
     \<lparr>data_reply = Some (ascii ''<b>hi</b>''), data_image = None,
      needs_report_generation = None, program_recommendation = None\<rparr>"

text \<open>Example scores, and an example index of three passages with its embeddings.\<close>

fun example_scores :: "dimension \<Rightarrow> real" where
  "example_scores Attachment = 70"
| "example_scores Regret = 60"
| "example_scores Unresolved = 70"
| "example_scores Comparison = 70"
| "example_scores Avoidance = 50"

fun example_embedder :: "string \<Rightarrow> nat" where
  "example_embedder q = length q"

fun example_similarity :: "nat \<Rightarrow> nat \<Rightarrow> real" where
  "example_similarity q e = 1 / real (1 + (q - e) + (e - q))"

definition example_passages :: "nat passage list" where
  "example_passages =
     [\<lparr>passage_text = ''close'', passage_embedding = 2, passage_metadata = ''pattern''\<rparr>,
      \<lparr>passage_text = ''remote'', passage_embedding = 9, passage_metadata = ''keyword''\<rparr>,
      \<lparr>passage_text = ''same'', passage_embedding = 1, passage_metadata = ''template''\<rparr>]"

text \<open>
  A response that is not OK and reports the failure in its reply; the state the page is
  in when the synchronous part of a call has run.
\<close>

definition server_error_data :: chat_data where
  "server_error_data =
     \<lparr>data_reply = Some (ascii ''Internal Server Error''), data_image = None,
      needs_report_generation = None, program_recommendation = None\<rparr>"

fun page_of :: "started \<Rightarrow> page" where
  "page_of (Returned st) = st"
| "page_of (Threw st) = st"
| "page_of (Awaiting loadingId st) = st"

text \<open>Whether a settled fetch yields an object to read.\<close>

fun yields_object :: "fetch_result \<Rightarrow> bool" where
  "yields_object (Rejected reason) = False"
| "yields_object (Response ok status body) = (body \<noteq> None)"

definition report_error_elem :: "jsstring \<Rightarrow> node" where
  "report_error_elem messageId = message_elem messageId Bot [text_container report_error_text]"

section \<open>Message ids and removal\<close>



lemma unat_digit: "d < 10 \<Longrightarrow> unat (digit d) = 48 + d"
  unfolding digit_def by (subst unat_of_nat) simp

lemma decimal_value_snoc: "decimal_value (s @ [c]) = 10 * decimal_value s + (unat c - 48)"
  by (simp add: decimal_value_def)

lemma decimal_value_number: "decimal_value (number_to_string n) = n"
proof (induction n rule: number_to_string.induct)
  case (1 n)
  show ?case
  proof (cases "n < 10")
    case True
    then show ?thesis
      by (subst number_to_string.simps) (simp add: decimal_value_def unat_digit)
  next
    case False
    then have "decimal_value (number_to_string (n div 10)) = n div 10"
      using 1 by simp
    with False show ?thesis
      by (subst number_to_string.simps) (simp add: decimal_value_snoc unat_digit)
  qed
qed

lemma number_to_string_inj: "number_to_string m = number_to_string n \<longleftrightarrow> m = n"
  by (metis decimal_value_number)

lemma msg_id_inj: "msg_id m = msg_id n \<longleftrightarrow> m = n"
  by (simp add: msg_id_def number_to_string_inj)

lemma number_to_string_nonempty: "number_to_string n \<noteq> []"
  by (subst number_to_string.simps) simp

lemma msg_id_nonempty: "msg_id n \<noteq> []"
  by (simp add: msg_id_def ascii_def)



lemma ids_append: "ids (ns @ ms) = ids ns @ ids ms"
  by (induction ns rule: ids.induct) simp_all

lemma remove_by_id_notin: "x \<notin> set (ids ns) \<Longrightarrow> remove_by_id x ns = ns"
  by (induction x ns rule: remove_by_id.induct) auto

lemma remove_by_id_empty: "remove_by_id [] ns = ns"
  by (induction "[] :: jsstring" ns rule: remove_by_id.induct) auto

lemma remove_by_id_append_in:
  "x \<in> set (ids ns) \<Longrightarrow> remove_by_id x (ns @ ms) = remove_by_id x ns @ ms"
  by (induction x ns rule: remove_by_id.induct) (auto simp: remove_by_id_empty)

lemma remove_by_id_append_notin:
  "x \<notin> set (ids ns) \<Longrightarrow> remove_by_id x (ns @ ms) = ns @ remove_by_id x ms"
  by (induction x ns rule: remove_by_id.induct) auto

lemma remove_by_id_child:
  assumes "x \<noteq> []" and "x \<notin> set (ids ys)"
  shows "remove_by_id x (ys @ Element t x c a ch # zs) = ys @ zs"
  using assms by (simp add: remove_by_id_append_notin)






lemma updateCharacterImage_fields [simp]:
  "chatLog (updateCharacterImage i st) = chatLog st"
  "messageIdCounter (updateCharacterImage i st) = messageIdCounter st"
  "requests (updateCharacterImage i st) = requests st"
  "timers (updateCharacterImage i st) = timers st"
  "location_href (updateCharacterImage i st) = location_href st"
  "username (updateCharacterImage i st) = username st"
  "userMessageInput (updateCharacterImage i st) = userMessageInput st"
  by (simp_all add: updateCharacterImage_def split: option.split)

lemma append_to_log_fields [simp]:
  "chatLog (append_to_log e st) = map_option (\<lambda>nodes. nodes @ [e]) (chatLog st)"
  "messageIdCounter (append_to_log e st) = messageIdCounter st"
  "requests (append_to_log e st) = requests st"
  "timers (append_to_log e st) = timers st"
  "location_href (append_to_log e st) = location_href st"
  "username (append_to_log e st) = username st"
  "userMessageInput (append_to_log e st) = userMessageInput st"
  "characterImage (append_to_log e st) = characterImage st"
  "characterName (append_to_log e st) = characterName st"
  by (simp_all add: append_to_log_def split: option.split)

lemma removeMessage_fields [simp]:
  "chatLog (removeMessage x st) = map_option (remove_by_id x) (chatLog st)"
  "messageIdCounter (removeMessage x st) = messageIdCounter st"
  "requests (removeMessage x st) = requests st"
  "timers (removeMessage x st) = timers st"
  "location_href (removeMessage x st) = location_href st"
  "username (removeMessage x st) = username st"
  "userMessageInput (removeMessage x st) = userMessageInput st"
  "characterImage (removeMessage x st) = characterImage st"
  "characterName (removeMessage x st) = characterName st"
  by (simp_all add: removeMessage_def split: option.split)

lemma appendMessage_fields [simp]:
  "fst (appendMessage s t i st) = msg_id (messageIdCounter st)"
  "messageIdCounter (snd (appendMessage s t i st)) = Suc (messageIdCounter st)"
  "chatLog (snd (appendMessage s t i st)) =
     map_option (\<lambda>nodes. nodes @ [message_elem (msg_id (messageIdCounter st)) s (message_content s t)])
       (chatLog st)"
  "requests (snd (appendMessage s t i st)) = requests st"
  "timers (snd (appendMessage s t i st)) = timers st"
  "location_href (snd (appendMessage s t i st)) = location_href st"
  "username (snd (appendMessage s t i st)) = username st"
  "userMessageInput (snd (appendMessage s t i st)) = userMessageInput st"
  by (cases s; simp add: appendMessage_def Let_def)+

lemma appendMessage_panel [simp]:
  "\<not> truthy i \<Longrightarrow> characterImage (snd (appendMessage s t i st)) = characterImage st"
  "\<not> truthy i \<Longrightarrow> characterName (snd (appendMessage s t i st)) = characterName st"
  by (cases s; simp add: appendMessage_def Let_def)+

lemma ids_message_elem: "filter (\<lambda>i. i \<noteq> []) (ids [message_elem x s (message_content s t)]) = filter (\<lambda>i. i \<noteq> []) [x]"
  by (cases s) (simp_all add: message_elem_def text_container_def set_textContent_def)

lemma set_ids_message_elem: "set (ids [message_elem x s (message_content s t)]) \<subseteq> {x, []}"
  by (cases s) (auto simp add: message_elem_def text_container_def set_textContent_def)

lemma log_ok_appendMessage:
  assumes "log_ok st"
  shows "log_ok (snd (appendMessage s t i st))"
proof (cases "chatLog st")
  case None
  then show ?thesis by (simp add: log_ok_def)
next
  case (Some nodes)
  let ?c = "messageIdCounter st"
  let ?e = "message_elem (msg_id ?c) s (message_content s t)"
  from assms Some have d: "distinct (filter (\<lambda>i. i \<noteq> []) (ids nodes))"
    and b: "\<And>k. msg_id k \<in> set (ids nodes) \<Longrightarrow> k < ?c"
    by (auto simp: log_ok_def)
  have fresh: "msg_id ?c \<notin> set (ids nodes)" using b by blast
  have "distinct (filter (\<lambda>i. i \<noteq> []) (ids (nodes @ [?e])))"
    using d fresh by (simp add: ids_append ids_message_elem msg_id_nonempty)
  moreover have "k < Suc ?c" if "msg_id k \<in> set (ids (nodes @ [?e]))" for k
  proof -
    from that have "msg_id k \<in> set (ids nodes) \<or> msg_id k \<in> {msg_id ?c, []}"
      using set_ids_message_elem [of "msg_id ?c" s t] by (auto simp: ids_append)
    then show ?thesis using b [of k] by (auto simp: msg_id_inj msg_id_nonempty)
  qed
  ultimately show ?thesis using Some by (simp add: log_ok_def)
qed










lemma log_ok_fresh_page: "log_ok fresh_page"
  by (simp add: log_ok_def fresh_page_def)


lemma chatLog_waiting_page:
  "chatLog waiting_page =
     Some ([message_elem (msg_id 0) User [TextNode (ascii ''hello'')]] @
           message_elem (msg_id 1) Bot [text_container thinking_text] # [])"
  by (simp add: waiting_page_def fresh_page_def set_textContent_def ascii_def)



section \<open>The text of a message\<close>


lemma appendMessage_v2_fields [simp]:
  "fst (appendMessage_v2 s t i st) = msg_id (messageIdCounter st)"
  "messageIdCounter (snd (appendMessage_v2 s t i st)) = Suc (messageIdCounter st)"
  "chatLog (snd (appendMessage_v2 s t i st)) =
     map_option (\<lambda>nodes. nodes @ [message_elem (msg_id (messageIdCounter st)) s (message_content_v2 s t i)])
       (chatLog st)"
  "requests (snd (appendMessage_v2 s t i st)) = requests st"
  "timers (snd (appendMessage_v2 s t i st)) = timers st"
  "location_href (snd (appendMessage_v2 s t i st)) = location_href st"
  "username (snd (appendMessage_v2 s t i st)) = username st"
  "userMessageInput (snd (appendMessage_v2 s t i st)) = userMessageInput st"
  "characterImage (snd (appendMessage_v2 s t i st)) = characterImage st"
  "characterName (snd (appendMessage_v2 s t i st)) = characterName st"
  by (cases s; simp add: appendMessage_v2_def Let_def)+

lemma ids_message_elem_v2:
  "filter (\<lambda>i. i \<noteq> []) (ids [message_elem x s (message_content_v2 s t i)]) = filter (\<lambda>i. i \<noteq> []) [x]"
  by (cases s)
     (simp_all add: message_elem_def text_container_def set_textContent_def bot_image_def
        split: option.split)

lemma textContent_message:
  "textContent (message_elem x s (message_content s t)) = t"
  "text_nodes [message_elem x s (message_content s t)] = (if t = [] then [] else [t])"
  by (cases s; simp add: textContent_def message_elem_def text_container_def set_textContent_def)+

lemma textContent_message_v2:
  "textContent (message_elem x s (message_content_v2 s t i)) = t"
  "text_nodes [message_elem x s (message_content_v2 s t i)] = (if t = [] then [] else [t])"
  by (cases s; simp add: textContent_def message_elem_def text_container_def set_textContent_def
        bot_image_def split: option.split)+

lemma element_tags_message:
  "element_tags [message_elem x s (message_content s t)] =
     (case s of User \<Rightarrow> [''div''] | Bot \<Rightarrow> [''div'', ''div''])"
  by (cases s; simp add: message_elem_def text_container_def set_textContent_def)

lemma element_tags_message_v2:
  "element_tags [message_elem x s (message_content_v2 s t i)] =
     (case s of User \<Rightarrow> [''div'']
      | Bot \<Rightarrow> if truthy i then [''div'', ''img'', ''div''] else [''div'', ''div''])"
  by (cases s; simp add: message_elem_def text_container_def set_textContent_def bot_image_def
        truthy_def split: option.split)

text \<open>
  Claim C9. Whoever the sender and whatever the text, the message that \<open>appendMessage\<close>
  (of either script) adds to the chat log holds the text in a text node, exactly as given:
  the text content of the new element is the given string, its only text node is that
  string, and the elements below it are those the function creates, whatever the text
  contains. Markup in a message is therefore shown as text and never becomes an element.
\<close>

theorem appendMessage_text_is_literal:
  assumes "chatLog st = Some nodes"
  shows "(\<exists>e. chatLog (snd (appendMessage sender text imageSrc st)) = Some (nodes @ [e]) \<and>
            textContent e = text \<and>
            text_nodes [e] = (if text = [] then [] else [text]) \<and>
            element_tags [e] = (case sender of User \<Rightarrow> [''div''] | Bot \<Rightarrow> [''div'', ''div''])) \<and>
         (\<exists>e. chatLog (snd (appendMessage_v2 sender text imageSrc st)) = Some (nodes @ [e]) \<and>
            textContent e = text \<and>
            text_nodes [e] = (if text = [] then [] else [text]) \<and>
            element_tags [e] =
              (case sender of
                 User \<Rightarrow> [''div'']
               | Bot \<Rightarrow> if truthy imageSrc then [''div'', ''img'', ''div''] else [''div'', ''div'']))"
  using assms
  by (simp add: textContent_message textContent_message_v2 element_tags_message
        element_tags_message_v2)

theorem appendMessage_text_is_literal_witness:
  "chatLog fresh_page = Some [] \<and>
   (\<exists>e. chatLog (snd (appendMessage Bot (ascii ''<script>alert(1)</script>'') None fresh_page)) = Some [e] \<and>
      textContent e = ascii ''<script>alert(1)</script>'' \<and>
      element_tags [e] = [''div'', ''div'']) \<and>
   (\<exists>e. chatLog (snd (appendMessage_v2 User (ascii ''<img src=x onerror=alert(1)>'') None fresh_page)) = Some [e] \<and>
      textContent e = ascii ''<img src=x onerror=alert(1)>'' \<and>
      element_tags [e] = [''div''])"
proof -
  have h: "chatLog fresh_page = Some []" by (simp add: fresh_page_def)
  from appendMessage_text_is_literal [OF h, of Bot "ascii ''<script>alert(1)</script>''" None]
    appendMessage_text_is_literal [OF h, of User "ascii ''<img src=x onerror=alert(1)>''" None]
    h show ?thesis by (simp del: appendMessage_fields appendMessage_v2_fields) blast
qed


section \<open>Waiting for the fetch\<close>


lemma log_ok_appendMessage_v2:
  assumes "log_ok st"
  shows "log_ok (snd (appendMessage_v2 s t i st))"
proof (cases "chatLog st")
  case None
  then show ?thesis by (simp add: log_ok_def)
next
  case (Some nodes)
  let ?c = "messageIdCounter st"
  let ?e = "message_elem (msg_id ?c) s (message_content_v2 s t i)"
  from assms Some have d: "distinct (filter (\<lambda>i. i \<noteq> []) (ids nodes))"
    and b: "\<And>k. msg_id k \<in> set (ids nodes) \<Longrightarrow> k < ?c"
    by (auto simp: log_ok_def)
  have fresh: "msg_id ?c \<notin> set (ids nodes)" using b by blast
  have "distinct (filter (\<lambda>i. i \<noteq> []) (ids (nodes @ [?e])))"
    using d fresh by (simp add: ids_append ids_message_elem_v2 msg_id_nonempty)
  moreover have "k < Suc ?c" if "msg_id k \<in> set (ids (nodes @ [?e]))" for k
  proof -
    have "set (filter (\<lambda>i. i \<noteq> []) (ids [?e])) = {msg_id ?c}"
      by (simp add: ids_message_elem_v2 msg_id_nonempty)
    with that have "msg_id k \<in> set (ids nodes) \<or> msg_id k = msg_id ?c"
      using msg_id_nonempty [of k] by (auto simp: ids_append)
    then show ?thesis using b [of k] by (auto simp: msg_id_inj)
  qed
  ultimately show ?thesis using Some by (simp add: log_ok_def)
qed

lemma log_ok_update [simp]:
  "log_ok (st\<lparr>requests := r\<rparr>) = log_ok st"
  "log_ok (st\<lparr>userMessageInput := u\<rparr>) = log_ok st"
  "log_ok (st\<lparr>timers := t\<rparr>) = log_ok st"
  "log_ok (st\<lparr>location_href := l\<rparr>) = log_ok st"
  by (simp_all add: log_ok_def split: option.split)

lemma fresh_id_not_in_log:
  assumes "log_ok st" and "chatLog st = Some ns"
  shows "msg_id (messageIdCounter st) \<notin> set (ids ns)"
  using assms by (auto simp: log_ok_def)

lemma remove_last_message:
  assumes "x \<noteq> []" and "x \<notin> set (ids ms)"
  shows "remove_by_id x (ms @ [message_elem x s content]) = ms"
  using assms by (simp add: message_elem_def remove_by_id_child)

text \<open>The state in which \<open>sendMessage\<close> waits for the fetch.\<close>

lemma show_loading_and_fetch_Awaiting:
  "show_loading_and_fetch message st =
     Awaiting (msg_id (messageIdCounter st))
       ((snd (appendMessage Bot thinking_text None st))
          \<lparr>requests := requests st @ [chat_request message (username st)]\<rparr>)"
  by (simp add: show_loading_and_fetch_def case_prod_unfold)

lemma show_loading_and_fetch_v2_Awaiting:
  "show_loading_and_fetch_v2 message st =
     Awaiting (msg_id (messageIdCounter st))
       ((snd (appendMessage_v2 Bot thinking_text None st))
          \<lparr>requests := requests st @ [chat_request message (username st)]\<rparr>)"
  by (simp add: show_loading_and_fetch_v2_def case_prod_unfold)

lemma sendMessage_begin_waits:
  assumes "log_ok st" and "chatLog st = Some ns" and "sendMessage_begin isInitial st = Awaiting lid st1"
  shows "\<exists>ms. chatLog st1 = Some (ms @ [loading_elem lid]) \<and> lid \<noteq> [] \<and> lid \<notin> set (ids ms) \<and>
           log_ok st1 \<and> lid = msg_id (messageIdCounter st1 - 1) \<and> 0 < messageIdCounter st1"
proof (cases isInitial)
  case True
  with assms(3) have l: "lid = msg_id (messageIdCounter st)"
    and s: "st1 = (snd (appendMessage Bot thinking_text None st))
                    \<lparr>requests := requests st @ [chat_request (ascii ''init'') (username st)]\<rparr>"
    by (simp_all add: sendMessage_begin_def show_loading_and_fetch_Awaiting)
  have "chatLog st1 = Some (ns @ [loading_elem lid])"
    using assms(2) by (simp add: s l loading_elem_def)
  moreover have "lid \<notin> set (ids ns)" using fresh_id_not_in_log [OF assms(1,2)] l by simp
  moreover have "log_ok st1" using assms(1) by (simp add: s log_ok_appendMessage)
  ultimately show ?thesis by (auto simp: l msg_id_nonempty s)
next
  case False
  with assms(3) obtain v where v: "userMessageInput st = Some v" "trim v \<noteq> []"
    by (auto simp: sendMessage_begin_def Let_def split: option.splits if_splits)
  let ?st' = "(snd (appendMessage User (trim v) None st))\<lparr>userMessageInput := Some []\<rparr>"
  from False v assms(3) have l: "lid = msg_id (messageIdCounter ?st')"
    and s: "st1 = (snd (appendMessage Bot thinking_text None ?st'))
                    \<lparr>requests := requests ?st' @ [chat_request (trim v) (username ?st')]\<rparr>"
    by (simp_all add: sendMessage_begin_def show_loading_and_fetch_Awaiting Let_def)
  have ok': "log_ok ?st'" using assms(1) by (simp add: log_ok_appendMessage)
  let ?ms = "ns @ [message_elem (msg_id (messageIdCounter st)) User (message_content User (trim v))]"
  have log': "chatLog ?st' = Some ?ms" using assms(2) by simp
  have "chatLog st1 = Some (?ms @ [loading_elem lid])"
    unfolding s l loading_elem_def using log' by simp
  moreover have "lid \<notin> set (ids ?ms)" using fresh_id_not_in_log [OF ok' log'] l by simp
  moreover have "log_ok st1" using ok' unfolding s by (simp add: log_ok_appendMessage del: appendMessage_fields)
  ultimately show ?thesis by (auto simp: l msg_id_nonempty s)
qed

section \<open>A failed turn\<close>


lemma sendMessage_begin_v2_waits:
  assumes "log_ok st" and "chatLog st = Some ns" and "sendMessage_begin_v2 isInitial st = Awaiting lid st1"
  shows "\<exists>ms. chatLog st1 = Some (ms @ [loading_elem lid]) \<and> lid \<noteq> [] \<and> lid \<notin> set (ids ms) \<and>
           log_ok st1 \<and> lid = msg_id (messageIdCounter st1 - 1) \<and> 0 < messageIdCounter st1"
proof (cases isInitial)
  case True
  with assms(3) have l: "lid = msg_id (messageIdCounter st)"
    and s: "st1 = (snd (appendMessage_v2 Bot thinking_text None st))
                    \<lparr>requests := requests st @ [chat_request (ascii ''init'') (username st)]\<rparr>"
    by (simp_all add: sendMessage_begin_v2_def show_loading_and_fetch_v2_Awaiting)
  have "chatLog st1 = Some (ns @ [loading_elem lid])"
    using assms(2) by (simp add: s l loading_elem_def)
  moreover have "lid \<notin> set (ids ns)" using fresh_id_not_in_log [OF assms(1,2)] l by simp
  moreover have "log_ok st1" using assms(1) by (simp add: s log_ok_appendMessage_v2)
  ultimately show ?thesis by (auto simp: l msg_id_nonempty s)
next
  case False
  with assms(3) obtain v where v: "userMessageInput st = Some v" "trim v \<noteq> []"
    by (auto simp: sendMessage_begin_v2_def Let_def split: option.splits if_splits)
  let ?st' = "(snd (appendMessage_v2 User (trim v) None st))\<lparr>userMessageInput := Some []\<rparr>"
  from False v assms(3) have l: "lid = msg_id (messageIdCounter ?st')"
    and s: "st1 = (snd (appendMessage_v2 Bot thinking_text None ?st'))
                    \<lparr>requests := requests ?st' @ [chat_request (trim v) (username ?st')]\<rparr>"
    by (simp_all add: sendMessage_begin_v2_def show_loading_and_fetch_v2_Awaiting Let_def)
  have ok': "log_ok ?st'" using assms(1) by (simp add: log_ok_appendMessage_v2)
  let ?ms = "ns @ [message_elem (msg_id (messageIdCounter st)) User (message_content User (trim v))]"
  have log': "chatLog ?st' = Some ?ms" using assms(2) by simp
  have "chatLog st1 = Some (?ms @ [loading_elem lid])"
    unfolding s l loading_elem_def using log' by simp
  moreover have "lid \<notin> set (ids ?ms)" using fresh_id_not_in_log [OF ok' log'] l by simp
  moreover have "log_ok st1"
    using ok' unfolding s by (simp add: log_ok_appendMessage_v2 del: appendMessage_v2_fields)
  ultimately show ?thesis by (auto simp: l msg_id_nonempty s)
qed

lemma show_error_fields [simp]:
  "chatLog (show_error lid st) =
     map_option (\<lambda>ns. remove_by_id lid ns @ [retry_elem (msg_id (messageIdCounter st))]) (chatLog st)"
  "messageIdCounter (show_error lid st) = Suc (messageIdCounter st)"
  "location_href (show_error lid st) = location_href st"
  "requests (show_error lid st) = requests st"
  "timers (show_error lid st) = timers st"
  "username (show_error lid st) = username st"
  by (simp_all add: show_error_def retry_elem_def option.map_comp comp_def)

lemma show_error_v2_fields [simp]:
  "chatLog (show_error_v2 lid st) =
     map_option (\<lambda>ns. remove_by_id lid ns @ [retry_elem (msg_id (messageIdCounter st))]) (chatLog st)"
  "messageIdCounter (show_error_v2 lid st) = Suc (messageIdCounter st)"
  "location_href (show_error_v2 lid st) = location_href st"
  "requests (show_error_v2 lid st) = requests st"
  "timers (show_error_v2 lid st) = timers st"
  "username (show_error_v2 lid st) = username st"
  by (simp_all add: show_error_v2_def retry_elem_def option.map_comp comp_def)

lemma failed_resume:
  assumes "fetch_failed result"
  shows "sendMessage_resume serialize lid result st = show_error lid st"
    and "sendMessage_resume_v2 lid result st = show_error_v2 lid st"
  using assms
  by (cases result; simp add: sendMessage_resume_def sendMessage_resume_v2_def)+

lemma textContent_retry_elem: "textContent (retry_elem x) = retry_text"
  by (simp add: retry_elem_def textContent_def message_elem_def text_container_def
        set_textContent_def retry_text_def)

lemma failed_whole_call:
  assumes "fetch_failed result" and "log_ok st" and "chatLog st = Some ns"
    and "sendMessage_begin isInitial st = Awaiting lid st1"
  shows "\<exists>ms. chatLog st1 = Some (ms @ [loading_elem lid]) \<and>
           chatLog (sendMessage serialize isInitial result st) =
             Some (ms @ [retry_elem (msg_id (messageIdCounter st1))])"
proof -
  from sendMessage_begin_waits [OF assms(2-4)] obtain ms where
    ms: "chatLog st1 = Some (ms @ [loading_elem lid])" "lid \<noteq> []" "lid \<notin> set (ids ms)"
    by blast
  have "remove_by_id lid (ms @ [loading_elem lid]) = ms"
    unfolding loading_elem_def using ms(2,3) by (rule remove_last_message)
  then show ?thesis
    using ms(1) assms(1,4) by (simp add: sendMessage_def failed_resume)
qed

lemma failed_whole_call_v2:
  assumes "fetch_failed result" and "log_ok st" and "chatLog st = Some ns"
    and "sendMessage_begin_v2 isInitial st = Awaiting lid st1"
  shows "\<exists>ms. chatLog st1 = Some (ms @ [loading_elem lid]) \<and>
           chatLog (sendMessage_v2 isInitial result st) =
             Some (ms @ [retry_elem (msg_id (messageIdCounter st1))])"
proof -
  from sendMessage_begin_v2_waits [OF assms(2-4)] obtain ms where
    ms: "chatLog st1 = Some (ms @ [loading_elem lid])" "lid \<noteq> []" "lid \<notin> set (ids ms)"
    by blast
  have "remove_by_id lid (ms @ [loading_elem lid]) = ms"
    unfolding loading_elem_def using ms(2,3) by (rule remove_last_message)
  then show ?thesis
    using ms(1) assms(1,4) by (simp add: sendMessage_v2_def failed_resume)
qed

lemma report_settled_without_object:
  assumes "\<not> yields_object result"
  shows "chatLog (report_settled lid2 result st) =
           map_option (\<lambda>ns. remove_by_id lid2 ns @ [report_error_elem (msg_id (messageIdCounter st))])
             (chatLog st)"
  using assms
  by (cases result)
     (simp_all add: report_settled_def Let_def report_error_elem_def option.map_comp comp_def)

lemma text_nodes_retry_elem: "text_nodes [retry_elem x] = [retry_text]"
  by (simp add: retry_elem_def message_elem_def text_container_def set_textContent_def
        retry_text_def)

lemma text_nodes_report_error_elem: "text_nodes [report_error_elem x] = [report_error_text]"
  by (simp add: report_error_elem_def message_elem_def text_container_def set_textContent_def
        report_error_text_def)

lemma report_error_text_differs: "report_error_text \<noteq> retry_text"
  by (simp add: report_error_text_def retry_text_def)

text \<open>
  Claim C6, as amended. When the fetch that \<open>sendMessage\<close> itself issues rejects, or its
  response is not OK, both scripts run their \<^verbatim>\<open>catch\<close> block: the loading message is
  removed and one bot message is appended, whose text is the fixed apology that asks to
  try again, whatever the reason or the status was; for a whole call on a page whose ids
  are in order, the log ends with that message in the place of the loading message. When
  the follow-up request of the second script rejects or yields no object, the loading
  message is removed and one bot message is appended whose text is another fixed apology,
  which does not ask to try again.
\<close>

theorem failed_turn_shows_retry:
  assumes "fetch_failed result"
  shows "sendMessage_resume serialize loadingId result st = show_error loadingId st \<and>
         sendMessage_resume_v2 loadingId result st = show_error_v2 loadingId st \<and>
         chatLog (show_error loadingId st) =
           map_option (\<lambda>ns. remove_by_id loadingId ns @ [retry_elem (msg_id (messageIdCounter st))])
             (chatLog st) \<and>
         chatLog (show_error_v2 loadingId st) = chatLog (show_error loadingId st) \<and>
         textContent (retry_elem (msg_id (messageIdCounter st))) = retry_text \<and>
         (\<forall>ns lid st1.
            log_ok st \<and> chatLog st = Some ns \<and> sendMessage_begin isInitial st = Awaiting lid st1 \<longrightarrow>
            (\<exists>ms. chatLog st1 = Some (ms @ [loading_elem lid]) \<and>
               chatLog (sendMessage serialize isInitial result st) =
                 Some (ms @ [retry_elem (msg_id (messageIdCounter st1))]))) \<and>
         (\<forall>ns lid st1.
            log_ok st \<and> chatLog st = Some ns \<and> sendMessage_begin_v2 isInitial st = Awaiting lid st1 \<longrightarrow>
            (\<exists>ms. chatLog st1 = Some (ms @ [loading_elem lid]) \<and>
               chatLog (sendMessage_v2 isInitial result st) =
                 Some (ms @ [retry_elem (msg_id (messageIdCounter st1))]))) \<and>
         text_nodes [retry_elem (msg_id (messageIdCounter st))] = [retry_text] \<and>
         retry_text =
           [0xC8C4, 0xC1A1, 0xD569, 0xB2C8, 0xB2E4, 0x002E, 0x0020, 0xC624, 0xB958, 0xAC00, 0x0020,
            0xBC1C, 0xC0DD, 0xD588, 0xC2B5, 0xB2C8, 0xB2E4, 0x002E, 0x0020, 0xB2E4, 0xC2DC, 0x0020,
            0xC2DC, 0xB3C4, 0xD574, 0xC8FC, 0xC138, 0xC694, 0x002E] \<and>
         (\<forall>result2. \<not> yields_object result2 \<longrightarrow>
            chatLog (report_settled loadingId2 result2 st2) =
              map_option
                (\<lambda>ns. remove_by_id loadingId2 ns @ [report_error_elem (msg_id (messageIdCounter st2))])
                (chatLog st2)) \<and>
         text_nodes [report_error_elem (msg_id (messageIdCounter st2))] = [report_error_text] \<and>
         report_error_text =
           [0xC8C4, 0xC1A1, 0xD569, 0xB2C8, 0xB2E4, 0x002E, 0x0020, 0xB9AC, 0xD3EC, 0xD2B8, 0x0020,
            0xC0DD, 0xC131, 0x0020, 0xC911, 0x0020, 0xC624, 0xB958, 0xAC00, 0x0020, 0xBC1C, 0xC0DD,
            0xD588, 0xC2B5, 0xB2C8, 0xB2E4, 0x002E]"
proof (intro conjI allI impI)
  show "\<exists>ms. chatLog st1 = Some (ms @ [loading_elem lid]) \<and>
           chatLog (sendMessage serialize isInitial result st) =
             Some (ms @ [retry_elem (msg_id (messageIdCounter st1))])"
    if "log_ok st \<and> chatLog st = Some ns \<and> sendMessage_begin isInitial st = Awaiting lid st1"
    for ns lid st1
    using failed_whole_call [OF assms] that by blast
  show "\<exists>ms. chatLog st1 = Some (ms @ [loading_elem lid]) \<and>
           chatLog (sendMessage_v2 isInitial result st) =
             Some (ms @ [retry_elem (msg_id (messageIdCounter st1))])"
    if "log_ok st \<and> chatLog st = Some ns \<and> sendMessage_begin_v2 isInitial st = Awaiting lid st1"
    for ns lid st1
    using failed_whole_call_v2 [OF assms] that by blast
  show "chatLog (report_settled loadingId2 result2 st2) =
              map_option
                (\<lambda>ns. remove_by_id loadingId2 ns @ [report_error_elem (msg_id (messageIdCounter st2))])
                (chatLog st2)"
    if "\<not> yields_object result2" for result2
    using that by (rule report_settled_without_object)
  show "retry_text =
           [0xC8C4, 0xC1A1, 0xD569, 0xB2C8, 0xB2E4, 0x002E, 0x0020, 0xC624, 0xB958, 0xAC00, 0x0020,
            0xBC1C, 0xC0DD, 0xD588, 0xC2B5, 0xB2C8, 0xB2E4, 0x002E, 0x0020, 0xB2E4, 0xC2DC, 0x0020,
            0xC2DC, 0xB3C4, 0xD574, 0xC8FC, 0xC138, 0xC694, 0x002E]"
    by (simp add: retry_text_def)
  show "report_error_text =
           [0xC8C4, 0xC1A1, 0xD569, 0xB2C8, 0xB2E4, 0x002E, 0x0020, 0xB9AC, 0xD3EC, 0xD2B8, 0x0020,
            0xC0DD, 0xC131, 0x0020, 0xC911, 0x0020, 0xC624, 0xB958, 0xAC00, 0x0020, 0xBC1C, 0xC0DD,
            0xD588, 0xC2B5, 0xB2C8, 0xB2E4, 0x002E]"
    by (simp add: report_error_text_def)
qed (simp_all add: failed_resume [OF assms] textContent_retry_elem text_nodes_retry_elem
       text_nodes_report_error_elem)

lemma trim_example: "trim (ascii '' hello '') = ascii ''hello''"
  by (simp add: trim_def ascii_def is_whitespace_def)

lemma begin_fresh_page:
  "sendMessage_begin False fresh_page =
     Awaiting (msg_id 1) (waiting_page\<lparr>userMessageInput := Some [],
        requests := [chat_request (ascii ''hello'') (Some (ascii ''mina''))]\<rparr>)"
  by (simp add: sendMessage_begin_def show_loading_and_fetch_Awaiting trim_def is_whitespace_def
        ascii_def truthy_def waiting_page_def fresh_page_def appendMessage_def Let_def
        append_to_log_def)

theorem failed_turn_shows_retry_witness:
  "fetch_failed (Response False 500 None) \<and>
   chatLog (sendMessage plain_serialize False (Response False 500 None) fresh_page) =
     Some [message_elem (msg_id 0) User [TextNode (ascii ''hello'')], retry_elem (msg_id 2)] \<and>
   text_nodes [retry_elem (msg_id 2)] = [retry_text] \<and>
   \<not> yields_object (Rejected (ascii ''Failed to fetch'')) \<and>
   chatLog (report_settled (msg_id 1) (Rejected (ascii ''Failed to fetch'')) waiting_page) =
     Some [message_elem (msg_id 0) User [TextNode (ascii ''hello'')], report_error_elem (msg_id 2)]"
proof -
  have f: "fetch_failed (Response False 500 None)" by simp
  have y: "\<not> yields_object (Rejected (ascii ''Failed to fetch''))" by simp
  let ?st1 = "waiting_page\<lparr>userMessageInput := Some [],
        requests := [chat_request (ascii ''hello'') (Some (ascii ''mina''))]\<rparr>"
  have c: "messageIdCounter ?st1 = 2" "messageIdCounter waiting_page = 2"
    by (simp_all add: waiting_page_def fresh_page_def)
  have l: "chatLog fresh_page = Some []" by (simp add: fresh_page_def)
  have r: "remove_by_id (msg_id 1)
             ([message_elem (msg_id 0) User [TextNode (ascii ''hello'')]] @
              [message_elem (msg_id 1) Bot [text_container thinking_text]]) =
           [message_elem (msg_id 0) User [TextNode (ascii ''hello'')]]"
    by (rule remove_last_message) (simp_all add: msg_id_nonempty message_elem_def msg_id_inj)
  note w = failed_turn_shows_retry [OF f, of plain_serialize "msg_id 1" fresh_page False
      "msg_id 1" waiting_page]
  from w have "\<exists>ms. chatLog ?st1 = Some (ms @ [loading_elem (msg_id 1)]) \<and>
          chatLog (sendMessage plain_serialize False (Response False 500 None) fresh_page) =
            Some (ms @ [retry_elem (msg_id (messageIdCounter ?st1))])"
    using log_ok_fresh_page l begin_fresh_page by blast
  then have 1: "chatLog (sendMessage plain_serialize False (Response False 500 None) fresh_page) =
     Some [message_elem (msg_id 0) User [TextNode (ascii ''hello'')], retry_elem (msg_id 2)]"
    using c by (auto simp: chatLog_waiting_page)
  from w y have "chatLog (report_settled (msg_id 1) (Rejected (ascii ''Failed to fetch'')) waiting_page) =
       map_option (\<lambda>ns. remove_by_id (msg_id 1) ns @ [report_error_elem (msg_id (messageIdCounter waiting_page))])
         (chatLog waiting_page)"
    by blast
  then have 2: "chatLog (report_settled (msg_id 1) (Rejected (ascii ''Failed to fetch'')) waiting_page) =
     Some [message_elem (msg_id 0) User [TextNode (ascii ''hello'')], report_error_elem (msg_id 2)]"
    using r c by (simp add: chatLog_waiting_page)
  from 1 2 f y show ?thesis by (simp add: text_nodes_retry_elem)
qed

text \<open>
  The claim as it stands fails on the follow-up request of the second script, which is a
  send attempt too. When it rejects, the message appended is not the request to try
  again; when its response is not OK but carries an object, no apology is appended at
  all and the object's reply is shown as it is.
\<close>

theorem failed_turn_counterexample:
  "fetch_failed (Rejected (ascii ''Failed to fetch'')) \<and>
   chatLog (report_settled (msg_id 1) (Rejected (ascii ''Failed to fetch'')) waiting_page) =
     Some [message_elem (msg_id 0) User [TextNode (ascii ''hello'')],
           message_elem (msg_id 2) Bot [text_container report_error_text]] \<and>
   report_error_text \<noteq> retry_text \<and>
   fetch_failed (Response False 500 (Some server_error_data)) \<and>
   chatLog (report_settled (msg_id 1) (Response False 500 (Some server_error_data)) waiting_page) =
     Some [message_elem (msg_id 0) User [TextNode (ascii ''hello'')],
           message_elem (msg_id 2) Bot [text_container (ascii ''Internal Server Error'')]]"
proof -
  have c: "messageIdCounter waiting_page = 2"
    by (simp add: waiting_page_def fresh_page_def)
  have r: "remove_by_id (msg_id 1)
             ([message_elem (msg_id 0) User [TextNode (ascii ''hello'')]] @
              [message_elem (msg_id 1) Bot [text_container thinking_text]]) =
           [message_elem (msg_id 0) User [TextNode (ascii ''hello'')]]"
    by (rule remove_last_message) (simp_all add: msg_id_nonempty message_elem_def msg_id_inj)
  have 1: "chatLog (report_settled (msg_id 1) (Rejected (ascii ''Failed to fetch'')) waiting_page) =
     Some [message_elem (msg_id 0) User [TextNode (ascii ''hello'')],
           message_elem (msg_id 2) Bot [text_container report_error_text]]"
    using r c by (simp add: report_settled_def Let_def chatLog_waiting_page)
  have 2: "chatLog (report_settled (msg_id 1) (Response False 500 (Some server_error_data)) waiting_page) =
     Some [message_elem (msg_id 0) User [TextNode (ascii ''hello'')],
           message_elem (msg_id 2) Bot [text_container (ascii ''Internal Server Error'')]]"
    using r c
    by (simp add: report_settled_def Let_def chatLog_waiting_page server_error_data_def
          or_string_def or_null_def or_else_def truthy_def ascii_def)
  from 1 2 report_error_text_differs show ?thesis by simp
qed

section \<open>The redirect to the recommendation page\<close>


lemma sendMessage_begin_location:
  "(case sendMessage_begin isInitial st of
      Returned s \<Rightarrow> location_href s | Threw s \<Rightarrow> location_href s | Awaiting l s \<Rightarrow> location_href s) =
   location_href st"
  by (simp add: sendMessage_begin_def show_loading_and_fetch_Awaiting Let_def split: option.split)

lemma resume_without_recommendation:
  assumes "\<not> delivers_recommendation result"
  shows "location_href (sendMessage_resume serialize lid result st) = location_href st"
  using assms
  by (cases result) (auto simp: sendMessage_resume_def Let_def split: option.splits)

lemma sendMessage_without_recommendation:
  assumes "\<not> delivers_recommendation result"
  shows "location_href (sendMessage serialize isInitial result st) = location_href st"
  using sendMessage_begin_location [of isInitial st] resume_without_recommendation [OF assms]
  by (simp add: sendMessage_def split: started.splits)

lemma resume_with_recommendation:
  assumes "program_recommendation d = Some r"
  shows "sendMessage_resume serialize lid (Response True status (Some d)) st =
           (removeMessage lid st)\<lparr>location_href := Some (recommendation_url serialize r d)\<rparr>"
  using assms by (simp add: sendMessage_resume_def)

lemma recommendation_whole_call:
  assumes "program_recommendation d = Some r" and "log_ok st" and "chatLog st = Some ns"
    and "sendMessage_begin isInitial st = Awaiting lid st1"
  shows "\<exists>ms. chatLog st1 = Some (ms @ [loading_elem lid]) \<and>
           chatLog (sendMessage serialize isInitial (Response True status (Some d)) st) = Some ms"
proof -
  from sendMessage_begin_waits [OF assms(2-4)] obtain ms where
    ms: "chatLog st1 = Some (ms @ [loading_elem lid])" "lid \<noteq> []" "lid \<notin> set (ids ms)"
    by blast
  have "remove_by_id lid (ms @ [loading_elem lid]) = ms"
    unfolding loading_elem_def using ms(2,3) by (rule remove_last_message)
  then show ?thesis
    using ms(1) assms(4) by (simp add: sendMessage_def resume_with_recommendation [OF assms(1)])
qed

lemma resume_requests:
  "requests (sendMessage_resume serialize lid result st) = requests st"
  "timers (sendMessage_resume serialize lid result st) = timers st"
  by (cases result; simp add: sendMessage_resume_def Let_def split: option.split)+

lemma resume_v2_chatLog:
  "chatLog (sendMessage_resume_v2 lid (Response True status (Some d)) st) =
     map_option (\<lambda>ns. remove_by_id lid ns @
                   [message_elem (msg_id (messageIdCounter st)) Bot
                      (message_content_v2 Bot (or_string (data_reply d) []) (or_null (data_image d)))])
       (chatLog st)"
  by (simp add: sendMessage_resume_v2_def Let_def option.map_comp comp_def)
lemma recommendation_whole_call_location:
  assumes "program_recommendation d = Some r" and "sendMessage_begin isInitial st = Awaiting lid st1"
  shows "location_href (sendMessage serialize isInitial (Response True status (Some d)) st) =
           Some (recommendation_url serialize r d)"
  using assms by (simp add: sendMessage_def resume_with_recommendation)

lemma sendMessage_begin_v2_location:
  "(case sendMessage_begin_v2 isInitial st of
      Returned s \<Rightarrow> location_href s | Threw s \<Rightarrow> location_href s | Awaiting l s \<Rightarrow> location_href s) =
   location_href st"
  by (simp add: sendMessage_begin_v2_def show_loading_and_fetch_v2_Awaiting Let_def
        split: option.split)

lemma resume_v2_location:
  "location_href (sendMessage_resume_v2 lid result st) = location_href st"
  by (cases result; simp add: sendMessage_resume_v2_def Let_def show_error_v2_def split: option.split)

lemma sendMessage_v2_location:
  "location_href (sendMessage_v2 isInitial result st) = location_href st"
  using sendMessage_begin_v2_location [of isInitial st]
  by (simp add: sendMessage_v2_def resume_v2_location split: started.splits)

text \<open>
  Claim C1, as amended. In the first script, when the object of an OK response has a
  \<^verbatim>\<open>program_recommendation\<close>, \<open>sendMessage\<close> removes the loading message, assigns
  \<^verbatim>\<open>/program_recommendation?\<close> followed by the serialized \<^verbatim>\<open>image\<close>, \<^verbatim>\<open>message\<close> and
  \<^verbatim>\<open>sentiment\<close> parameters to the location, and returns: no message is appended (no id
  is used up), the side panel is untouched, no request is issued and no timer is set,
  whatever \<^verbatim>\<open>reply\<close>, \<^verbatim>\<open>image\<close> and \<^verbatim>\<open>needs_report_generation\<close> are. This holds for the
  resumed call in any state and for a whole call that has issued its request. When the
  settled fetch delivers no such object, the location is not assigned. The second script
  never assigns the location, whatever the response is.
\<close>

theorem recommendation_redirects:
  assumes "program_recommendation d = Some r"
  shows "sendMessage_resume serialize loadingId (Response True status (Some d)) st =
           (removeMessage loadingId st)\<lparr>location_href := Some (recommendation_url serialize r d)\<rparr> \<and>
         recommendation_url serialize r d =
           ascii ''/program_recommendation?'' @
           serialize [(''image'', or_string (or_else (rec_image r) (data_image d)) []),
                      (''message'', or_string (or_else (rec_message r) (data_reply d)) []),
                      (''sentiment'', or_string (rec_sentiment r) (ascii ''positive''))] \<and>
         chatLog (sendMessage_resume serialize loadingId (Response True status (Some d)) st) =
           map_option (remove_by_id loadingId) (chatLog st) \<and>
         messageIdCounter (sendMessage_resume serialize loadingId (Response True status (Some d)) st) =
           messageIdCounter st \<and>
         characterImage (sendMessage_resume serialize loadingId (Response True status (Some d)) st) =
           characterImage st \<and>
         characterName (sendMessage_resume serialize loadingId (Response True status (Some d)) st) =
           characterName st \<and>
         requests (sendMessage_resume serialize loadingId (Response True status (Some d)) st) =
           requests st \<and>
         timers (sendMessage_resume serialize loadingId (Response True status (Some d)) st) =
           timers st \<and>
         (\<forall>ns lid st1.
            log_ok st \<and> chatLog st = Some ns \<and> sendMessage_begin isInitial st = Awaiting lid st1 \<longrightarrow>
            (\<exists>ms. chatLog st1 = Some (ms @ [loading_elem lid]) \<and>
               chatLog (sendMessage serialize isInitial (Response True status (Some d)) st) = Some ms)) \<and>
         (\<forall>result. \<not> delivers_recommendation result \<longrightarrow>
            location_href (sendMessage_resume serialize loadingId result st) = location_href st \<and>
            location_href (sendMessage serialize isInitial result st) = location_href st) \<and>
         (\<forall>lid st1. sendMessage_begin isInitial st = Awaiting lid st1 \<longrightarrow>
            location_href (sendMessage serialize isInitial (Response True status (Some d)) st) =
              Some (recommendation_url serialize r d) \<and>
            timers (sendMessage serialize isInitial (Response True status (Some d)) st) = timers st1 \<and>
            requests (sendMessage serialize isInitial (Response True status (Some d)) st) =
              requests st1 \<and>
            messageIdCounter (sendMessage serialize isInitial (Response True status (Some d)) st) =
              messageIdCounter st1) \<and>
         (\<forall>result. location_href (sendMessage_resume_v2 loadingId result st) = location_href st \<and>
                   location_href (sendMessage_v2 isInitial result st) = location_href st)"
proof (intro conjI allI impI)
  show "\<exists>ms. chatLog st1 = Some (ms @ [loading_elem lid]) \<and>
           chatLog (sendMessage serialize isInitial (Response True status (Some d)) st) = Some ms"
    if "log_ok st \<and> chatLog st = Some ns \<and> sendMessage_begin isInitial st = Awaiting lid st1"
    for ns lid st1
    using recommendation_whole_call [OF assms] that by blast
  show "location_href (sendMessage serialize isInitial (Response True status (Some d)) st) =
              Some (recommendation_url serialize r d)"
    if "sendMessage_begin isInitial st = Awaiting lid st1" for lid st1
    using assms that by (rule recommendation_whole_call_location)
  show "timers (sendMessage serialize isInitial (Response True status (Some d)) st) = timers st1"
    if "sendMessage_begin isInitial st = Awaiting lid st1" for lid st1
    using that by (simp add: sendMessage_def resume_requests)
  show "requests (sendMessage serialize isInitial (Response True status (Some d)) st) = requests st1"
    if "sendMessage_begin isInitial st = Awaiting lid st1" for lid st1
    using that by (simp add: sendMessage_def resume_requests)
  show "messageIdCounter (sendMessage serialize isInitial (Response True status (Some d)) st) =
          messageIdCounter st1"
    if "sendMessage_begin isInitial st = Awaiting lid st1" for lid st1
    using that by (simp add: sendMessage_def resume_with_recommendation [OF assms])
qed (simp_all add: resume_with_recommendation [OF assms] recommendation_url_def
       resume_without_recommendation sendMessage_without_recommendation resume_v2_location
       sendMessage_v2_location)

theorem recommendation_redirects_witness:
  "program_recommendation recommendation_data =
     Some \<lparr>rec_image = None, rec_message = Some (ascii ''try it''), rec_sentiment = None\<rparr> \<and>
   location_href (sendMessage plain_serialize False (Response True 200 (Some recommendation_data))
                    fresh_page) =
     Some (ascii ''/program_recommendation?image=/static/pd.png&message=try it&sentiment=positive&'') \<and>
   chatLog (sendMessage plain_serialize False (Response True 200 (Some recommendation_data))
              fresh_page) =
     Some [message_elem (msg_id 0) User [TextNode (ascii ''hello'')]] \<and>
   timers (sendMessage plain_serialize False (Response True 200 (Some recommendation_data))
             fresh_page) = [] \<and>
   \<not> delivers_recommendation (Response True 200 (Some plain_data)) \<and>
   location_href (sendMessage plain_serialize False (Response True 200 (Some plain_data)) fresh_page) =
     None"
proof -
  let ?r = "\<lparr>rec_image = None, rec_message = Some (ascii ''try it''), rec_sentiment = None\<rparr>"
  let ?st1 = "waiting_page\<lparr>userMessageInput := Some [],
        requests := [chat_request (ascii ''hello'') (Some (ascii ''mina''))]\<rparr>"
  have h: "program_recommendation recommendation_data = Some ?r"
    by (simp add: recommendation_data_def)
  have n: "\<not> delivers_recommendation (Response True 200 (Some plain_data))"
    by (simp add: plain_data_def)
  have u: "recommendation_url plain_serialize ?r recommendation_data =
     ascii ''/program_recommendation?image=/static/pd.png&message=try it&sentiment=positive&''"
    by (simp add: recommendation_url_def recommendation_data_def or_string_def or_else_def
          truthy_def ascii_def)
  have l: "location_href fresh_page = None" "chatLog fresh_page = Some []"
    by (simp_all add: fresh_page_def)
  have t: "timers ?st1 = []" by (simp add: waiting_page_def fresh_page_def)
  have k: "chatLog ?st1 =
      Some ([message_elem (msg_id 0) User [TextNode (ascii ''hello'')]] @ [loading_elem (msg_id 1)])"
    by (simp add: chatLog_waiting_page loading_elem_def)
  note w = recommendation_redirects [OF h, of plain_serialize "msg_id 1" 200 fresh_page False]
  from w begin_fresh_page
  have 1: "location_href (sendMessage plain_serialize False (Response True 200 (Some recommendation_data))
                    fresh_page) = Some (recommendation_url plain_serialize ?r recommendation_data)"
    and 2: "timers (sendMessage plain_serialize False (Response True 200 (Some recommendation_data))
                    fresh_page) = timers ?st1"
    by blast+
  from w log_ok_fresh_page l(2) begin_fresh_page
  have "\<exists>ms. chatLog ?st1 = Some (ms @ [loading_elem (msg_id 1)]) \<and>
          chatLog (sendMessage plain_serialize False (Response True 200 (Some recommendation_data))
                     fresh_page) = Some ms"
    by blast
  then have 3: "chatLog (sendMessage plain_serialize False (Response True 200 (Some recommendation_data))
              fresh_page) = Some [message_elem (msg_id 0) User [TextNode (ascii ''hello'')]]"
    unfolding k by auto
  from w n have 4: "location_href (sendMessage plain_serialize False (Response True 200 (Some plain_data))
                      fresh_page) = location_href fresh_page"
    by blast
  from 1 2 3 4 h n u l t show ?thesis by simp
qed


text \<open>
  The claim as it stands fails on the second script: the object has a
  \<^verbatim>\<open>program_recommendation\<close>, yet the location is not assigned, the reply and the image are
  rendered, and the report timer is set.
\<close>

theorem recommendation_counterexample:
  "program_recommendation recommendation_data =
     Some \<lparr>rec_image = None, rec_message = Some (ascii ''try it''), rec_sentiment = None\<rparr> \<and>
   location_href (sendMessage_v2 False (Response True 200 (Some recommendation_data)) fresh_page) =
     None \<and>
   chatLog (sendMessage_v2 False (Response True 200 (Some recommendation_data)) fresh_page) =
     Some [message_elem (msg_id 0) User [TextNode (ascii ''hello'')],
           message_elem (msg_id 2) Bot
             [bot_image (ascii ''/static/pd.png''), text_container (ascii ''see this'')]] \<and>
   timers (sendMessage_v2 False (Response True 200 (Some recommendation_data)) fresh_page) =
     [(ReportRequest, 500)]"
proof -
  let ?st1 = "(snd (appendMessage_v2 Bot thinking_text None
                 ((snd (appendMessage_v2 User (ascii ''hello'') None fresh_page))
                    \<lparr>userMessageInput := Some []\<rparr>)))
              \<lparr>requests := [chat_request (ascii ''hello'') (Some (ascii ''mina''))]\<rparr>"
  have b: "sendMessage_begin_v2 False fresh_page = Awaiting (msg_id 1) ?st1"
    by (simp add: sendMessage_begin_v2_def show_loading_and_fetch_v2_Awaiting trim_def
          is_whitespace_def ascii_def fresh_page_def Let_def)
  have s: "sendMessage_v2 False (Response True 200 (Some recommendation_data)) fresh_page =
           sendMessage_resume_v2 (msg_id 1) (Response True 200 (Some recommendation_data)) ?st1"
    by (simp add: sendMessage_v2_def b)
  have r: "remove_by_id (msg_id 1)
             ([message_elem (msg_id 0) User [TextNode (ascii ''hello'')]] @
              [message_elem (msg_id 1) Bot [text_container thinking_text]]) =
           [message_elem (msg_id 0) User [TextNode (ascii ''hello'')]]"
    by (rule remove_last_message) (simp_all add: msg_id_nonempty message_elem_def msg_id_inj)
  have k: "chatLog ?st1 =
      Some ([message_elem (msg_id 0) User [TextNode (ascii ''hello'')]] @
            [message_elem (msg_id 1) Bot [text_container thinking_text]])"
    by (simp add: fresh_page_def set_textContent_def ascii_def)
  have c: "messageIdCounter ?st1 = 2" "timers ?st1 = []" "location_href ?st1 = None"
    by (simp_all add: fresh_page_def)
  have m: "message_content_v2 Bot (or_string (data_reply recommendation_data) [])
             (or_null (data_image recommendation_data)) =
           [bot_image (ascii ''/static/pd.png''), text_container (ascii ''see this'')]"
    by (simp add: recommendation_data_def or_string_def or_null_def or_else_def truthy_def
          ascii_def)
  have 1: "chatLog (sendMessage_resume_v2 (msg_id 1) (Response True 200 (Some recommendation_data)) ?st1) =
     Some [message_elem (msg_id 0) User [TextNode (ascii ''hello'')],
           message_elem (msg_id 2) Bot
             [bot_image (ascii ''/static/pd.png''), text_container (ascii ''see this'')]]"
    unfolding resume_v2_chatLog m k c(1) using r by simp
  have 2: "timers (sendMessage_resume_v2 (msg_id 1) (Response True 200 (Some recommendation_data)) ?st1) =
     [(ReportRequest, 500)]"
    using c(2) by (simp add: sendMessage_resume_v2_def Let_def recommendation_data_def)
  have 3: "location_href (sendMessage_resume_v2 (msg_id 1) (Response True 200 (Some recommendation_data)) ?st1) =
     None"
    using c(3) by (simp add: resume_v2_location)
  from 1 2 3 show ?thesis unfolding s by (simp add: recommendation_data_def)
qed

section \<open>The initial message\<close>


lemma initial_message_callback_empty:
  assumes "chatLog st = Some nodes" and "childElementCount nodes = 0"
  shows "initial_message_callback st =
           Awaiting (msg_id (messageIdCounter st))
             ((snd (appendMessage Bot thinking_text None st))
                \<lparr>requests := requests st @ [chat_request (ascii ''init'') (username st)]\<rparr>)"
  using assms
  by (simp add: initial_message_callback_def sendMessage_begin_def show_loading_and_fetch_Awaiting)

lemma initial_message_callback_request:
  assumes "chatLog st = Some nodes" and "childElementCount nodes = 0"
  shows "\<exists>st1. initial_message_callback st = Awaiting (msg_id (messageIdCounter st)) st1 \<and>
           requests st1 =
             requests st @
             [\<lparr>req_url = ''/api/chat'', req_method = ''POST'', req_content_type = ''application/json'',
               req_message = ascii ''init'', req_username = username st\<rparr>] \<and>
           req_message (last (requests st1)) = ascii ''init'' \<and>
           chatLog st1 = Some (nodes @ [loading_elem (msg_id (messageIdCounter st))]) \<and>
           (\<forall>result. requests (sendMessage_resume serialize (msg_id (messageIdCounter st)) result st1) =
                       requests st1 \<and>
                     timers (sendMessage_resume serialize (msg_id (messageIdCounter st)) result st1) =
                       timers st1)"
proof -
  let ?st1 = "(snd (appendMessage Bot thinking_text None st))
                \<lparr>requests := requests st @ [chat_request (ascii ''init'') (username st)]\<rparr>"
  have "initial_message_callback st = Awaiting (msg_id (messageIdCounter st)) ?st1"
    using assms by (simp add: initial_message_callback_empty)
  moreover have "requests ?st1 =
             requests st @
             [\<lparr>req_url = ''/api/chat'', req_method = ''POST'', req_content_type = ''application/json'',
               req_message = ascii ''init'', req_username = username st\<rparr>]"
    by (simp add: chat_request_def)
  moreover have "req_message (last (requests ?st1)) = ascii ''init''"
    by (simp add: chat_request_def)
  moreover have "chatLog ?st1 = Some (nodes @ [loading_elem (msg_id (messageIdCounter st))])"
    using assms by (simp add: loading_elem_def)
  ultimately show ?thesis using resume_requests by blast
qed

lemma initial_message_callback_returns:
  assumes "chatLog st = None \<or> (\<exists>nodes. chatLog st = Some nodes \<and> childElementCount nodes \<noteq> 0)"
  shows "initial_message_callback st = Returned st"
  using assms by (auto simp: initial_message_callback_def)

lemma on_load_fields:
  "timers (on_load st) = timers st @ [(InitialMessage, 500)]"
  "chatLog (on_load st) = chatLog st"
  "requests (on_load st) = requests st"
  "messageIdCounter (on_load st) = messageIdCounter st"
  "username (on_load st) = username st"
  by (simp_all add: on_load_def)

text \<open>
  Claim C8, as amended. The \<^verbatim>\<open>load\<close> handler only sets a timer of 500 ms. When the timer's
  callback runs and the chat log then has no element child, exactly one request is
  issued, a POST to \<^verbatim>\<open>/api/chat\<close> with the JSON content type whose message is \<^verbatim>\<open>init\<close> and
  whose username is the page's, and the only message appended is the bot's loading
  message (no user message); settling that request issues no further request. When the
  chat log then has an element child (or the page has no chat log), the callback returns
  without a request. When nothing else runs between the load and the timer, the state
  of the chat log at load decides in the same way.
\<close>

theorem initial_message_on_empty_log:
  "(\<forall>nodes. chatLog st = Some nodes \<and> childElementCount nodes = 0 \<longrightarrow>
      (\<exists>st1. initial_message_callback st = Awaiting (msg_id (messageIdCounter st)) st1 \<and>
         requests st1 =
           requests st @
           [\<lparr>req_url = ''/api/chat'', req_method = ''POST'', req_content_type = ''application/json'',
             req_message = ascii ''init'', req_username = username st\<rparr>] \<and>
         req_message (last (requests st1)) = ascii ''init'' \<and>
         chatLog st1 = Some (nodes @ [loading_elem (msg_id (messageIdCounter st))]) \<and>
         (\<forall>result. requests (sendMessage_resume serialize (msg_id (messageIdCounter st)) result st1) =
                     requests st1 \<and>
                   timers (sendMessage_resume serialize (msg_id (messageIdCounter st)) result st1) =
                     timers st1))) \<and>
   classList (loading_elem (msg_id (messageIdCounter st))) = [''message'', ''bot''] \<and>
   (chatLog st = None \<longrightarrow> initial_message_callback st = Returned st) \<and>
   (\<forall>nodes. chatLog st = Some nodes \<and> childElementCount nodes \<noteq> 0 \<longrightarrow>
      initial_message_callback st = Returned st) \<and>
   on_load st = st\<lparr>timers := timers st @ [(InitialMessage, 500)]\<rparr> \<and>
   timers (on_load st) = timers st @ [(InitialMessage, 500)] \<and>
   chatLog (on_load st) = chatLog st \<and>
   requests (on_load st) = requests st \<and>
   (\<forall>nodes. chatLog st = Some nodes \<and> childElementCount nodes = 0 \<longrightarrow>
      (\<exists>st1. initial_message_callback (on_load st) = Awaiting (msg_id (messageIdCounter st)) st1 \<and>
         requests st1 =
           requests st @
           [\<lparr>req_url = ''/api/chat'', req_method = ''POST'', req_content_type = ''application/json'',
             req_message = ascii ''init'', req_username = username st\<rparr>] \<and>
         chatLog st1 = Some (nodes @ [loading_elem (msg_id (messageIdCounter st))]))) \<and>
   (\<forall>nodes. chatLog st = Some nodes \<and> childElementCount nodes \<noteq> 0 \<longrightarrow>
      initial_message_callback (on_load st) = Returned (on_load st))"
proof (intro conjI allI impI)
  fix nodes
  assume h: "chatLog st = Some nodes \<and> childElementCount nodes = 0"
  from h show "\<exists>st1. initial_message_callback st = Awaiting (msg_id (messageIdCounter st)) st1 \<and>
         requests st1 =
           requests st @
           [\<lparr>req_url = ''/api/chat'', req_method = ''POST'', req_content_type = ''application/json'',
             req_message = ascii ''init'', req_username = username st\<rparr>] \<and>
         req_message (last (requests st1)) = ascii ''init'' \<and>
         chatLog st1 = Some (nodes @ [loading_elem (msg_id (messageIdCounter st))]) \<and>
         (\<forall>result. requests (sendMessage_resume serialize (msg_id (messageIdCounter st)) result st1) =
                     requests st1 \<and>
                   timers (sendMessage_resume serialize (msg_id (messageIdCounter st)) result st1) =
                     timers st1)"
    using initial_message_callback_request [of st nodes serialize] by blast
  from h have "chatLog (on_load st) = Some nodes" by (simp add: on_load_fields)
  from initial_message_callback_request [OF this, of serialize] h
  obtain st1 where
    "initial_message_callback (on_load st) = Awaiting (msg_id (messageIdCounter st)) st1"
    "requests st1 =
           requests st @
           [\<lparr>req_url = ''/api/chat'', req_method = ''POST'', req_content_type = ''application/json'',
             req_message = ascii ''init'', req_username = username st\<rparr>]"
    "chatLog st1 = Some (nodes @ [loading_elem (msg_id (messageIdCounter st))])"
    unfolding on_load_fields by auto
  then show "\<exists>st1. initial_message_callback (on_load st) = Awaiting (msg_id (messageIdCounter st)) st1 \<and>
         requests st1 =
           requests st @
           [\<lparr>req_url = ''/api/chat'', req_method = ''POST'', req_content_type = ''application/json'',
             req_message = ascii ''init'', req_username = username st\<rparr>] \<and>
         chatLog st1 = Some (nodes @ [loading_elem (msg_id (messageIdCounter st))])"
    by (intro exI [of _ st1] conjI)
next
  fix nodes
  assume h: "chatLog st = Some nodes \<and> childElementCount nodes \<noteq> 0"
  then show "initial_message_callback st = Returned st"
    by (intro initial_message_callback_returns) blast
  from h show "initial_message_callback (on_load st) = Returned (on_load st)"
    by (intro initial_message_callback_returns) (simp add: on_load_fields)
next
  assume "chatLog st = None"
  then show "initial_message_callback st = Returned st"
    by (intro initial_message_callback_returns) blast
qed (simp_all add: on_load_def loading_elem_def message_elem_def)

lemma childElementCount_waiting_page:
  "\<exists>nodes. chatLog waiting_page = Some nodes \<and> childElementCount nodes \<noteq> 0"
  by (simp add: chatLog_waiting_page childElementCount_def message_elem_def)

theorem initial_message_on_empty_log_witness:
  "chatLog fresh_page = Some [] \<and> childElementCount [] = 0 \<and>
   (\<exists>st1. initial_message_callback (on_load fresh_page) = Awaiting (msg_id 0) st1 \<and>
      requests st1 =
        [\<lparr>req_url = ''/api/chat'', req_method = ''POST'', req_content_type = ''application/json'',
          req_message = ascii ''init'', req_username = Some (ascii ''mina'')\<rparr>] \<and>
      chatLog st1 = Some [loading_elem (msg_id 0)]) \<and>
   (\<exists>nodes. chatLog waiting_page = Some nodes \<and> childElementCount nodes \<noteq> 0) \<and>
   initial_message_callback waiting_page = Returned waiting_page"
proof -
  have h: "chatLog fresh_page = Some [] \<and> childElementCount [] = 0"
    by (simp add: fresh_page_def childElementCount_def)
  have f: "messageIdCounter fresh_page = 0" "requests fresh_page = []"
    "username fresh_page = Some (ascii ''mina'')"
    by (simp_all add: fresh_page_def)
  note w = initial_message_on_empty_log [of fresh_page plain_serialize]
  from w h
  have "\<exists>st1. initial_message_callback (on_load fresh_page) =
            Awaiting (msg_id (messageIdCounter fresh_page)) st1 \<and>
      requests st1 =
        requests fresh_page @
        [\<lparr>req_url = ''/api/chat'', req_method = ''POST'', req_content_type = ''application/json'',
          req_message = ascii ''init'', req_username = username fresh_page\<rparr>] \<and>
      chatLog st1 = Some ([] @ [loading_elem (msg_id (messageIdCounter fresh_page))])"
    by blast
  then have 1: "\<exists>st1. initial_message_callback (on_load fresh_page) = Awaiting (msg_id 0) st1 \<and>
      requests st1 =
        [\<lparr>req_url = ''/api/chat'', req_method = ''POST'', req_content_type = ''application/json'',
          req_message = ascii ''init'', req_username = Some (ascii ''mina'')\<rparr>] \<and>
      chatLog st1 = Some [loading_elem (msg_id 0)]"
    unfolding f by simp
  from initial_message_on_empty_log [of waiting_page plain_serialize]
    childElementCount_waiting_page
  have 2: "initial_message_callback waiting_page = Returned waiting_page" by blast
  from 1 2 h childElementCount_waiting_page show ?thesis by blast
qed

text \<open>
  The claim as it stands fails when a message is sent within the 500 ms: the chat log is
  empty on load, the user's message goes out before the timer runs, the callback then
  finds the log not empty and returns, and the only request ever issued is the user's.
\<close>

theorem initial_message_counterexample:
  "chatLog (on_load fresh_page) = Some [] \<and>
   requests (page_of (sendMessage_begin False (on_load fresh_page))) =
     [\<lparr>req_url = ''/api/chat'', req_method = ''POST'', req_content_type = ''application/json'',
       req_message = ascii ''hello'', req_username = Some (ascii ''mina'')\<rparr>] \<and>
   initial_message_callback (page_of (sendMessage_begin False (on_load fresh_page))) =
     Returned (page_of (sendMessage_begin False (on_load fresh_page)))"
proof -
  let ?st1 = "(snd (appendMessage Bot thinking_text None
                 ((snd (appendMessage User (ascii ''hello'') None (on_load fresh_page)))
                    \<lparr>userMessageInput := Some []\<rparr>)))
              \<lparr>requests := [chat_request (ascii ''hello'') (Some (ascii ''mina''))]\<rparr>"
  have b: "sendMessage_begin False (on_load fresh_page) = Awaiting (msg_id 1) ?st1"
    by (simp add: sendMessage_begin_def show_loading_and_fetch_Awaiting trim_def
          is_whitespace_def ascii_def fresh_page_def on_load_def Let_def)
  have p: "page_of (sendMessage_begin False (on_load fresh_page)) = ?st1"
    by (simp add: b)
  have 1: "requests ?st1 =
     [\<lparr>req_url = ''/api/chat'', req_method = ''POST'', req_content_type = ''application/json'',
       req_message = ascii ''hello'', req_username = Some (ascii ''mina'')\<rparr>]"
    by (simp add: chat_request_def)
  have "\<exists>nodes. chatLog ?st1 = Some nodes \<and> childElementCount nodes \<noteq> 0"
    by (simp add: on_load_def fresh_page_def childElementCount_def message_elem_def)
  then have 2: "initial_message_callback ?st1 = Returned ?st1"
    by (intro initial_message_callback_returns) blast
  have 3: "chatLog (on_load fresh_page) = Some []"
    by (simp add: on_load_def fresh_page_def)
  from 1 2 3 show ?thesis unfolding p by simp
qed

section \<open>The report follow-up\<close>


lemma resume_v2_flag:
  assumes "needs_report_generation d = Some True"
  shows "timers (sendMessage_resume_v2 lid (Response True status (Some d)) st) =
           timers st @ [(ReportRequest, 500)]"
    and "requests (sendMessage_resume_v2 lid (Response True status (Some d)) st) = requests st"
  using assms by (simp_all add: sendMessage_resume_v2_def Let_def)

lemma resume_v2_no_flag:
  assumes "\<forall>status d. result = Response True status (Some d) \<longrightarrow> needs_report_generation d \<noteq> Some True"
  shows "timers (sendMessage_resume_v2 lid result st) = timers st"
    and "requests (sendMessage_resume_v2 lid result st) = requests st"
  using assms
  by (cases result; simp add: sendMessage_resume_v2_def Let_def split: option.split)+

lemma resume_v2_username:
  "username (sendMessage_resume_v2 lid result st) = username st"
  by (cases result; simp add: sendMessage_resume_v2_def Let_def split: option.split)

lemma report_callback_fields:
  "fst (report_callback st) = msg_id (messageIdCounter st)"
  "requests (snd (report_callback st)) = requests st @ [chat_request [] (username st)]"
  "timers (snd (report_callback st)) = timers st"
  "username (snd (report_callback st)) = username st"
  "chatLog (snd (report_callback st)) =
     map_option (\<lambda>ns. ns @ [loading_elem (msg_id (messageIdCounter st))]) (chatLog st)"
  by (simp_all add: report_callback_def case_prod_unfold loading_elem_def)

lemma report_settled_fields:
  "chatLog (report_settled lid2 (Response ok status (Some d)) st) =
     map_option (\<lambda>ns. remove_by_id lid2 ns @
                   [message_elem (msg_id (messageIdCounter st)) Bot
                      (message_content_v2 Bot (or_string (data_reply d) []) (or_null (data_image d)))])
       (chatLog st)"
  "requests (report_settled lid2 result st) = requests st"
  "timers (report_settled lid2 result st) = timers st"
  "username (report_settled lid2 result st) = username st"
  by (cases result; simp add: report_settled_def Let_def option.map_comp comp_def split: option.split)+

text \<open>
  Claim C2, as amended. In the second script, an OK response whose object has
  \<^verbatim>\<open>needs_report_generation === true\<close> makes \<open>sendMessage\<close> set exactly one timer (and issue
  no request itself), whether or not a \<^verbatim>\<open>program_recommendation\<close> is present; the timer's
  callback issues exactly one request, a POST to \<^verbatim>\<open>/api/chat\<close> with the empty message and
  the page's username, which no step changes; when that request yields an object, its
  reply is appended as a bot message, and settling it issues no request and sets no
  timer. Any other outcome of the first request sets no timer and issues no request. The
  first script never sets a timer or issues a request when a fetch settles.
\<close>

theorem report_follow_up:
  assumes "needs_report_generation d = Some True"
  shows "timers (sendMessage_resume_v2 loadingId (Response True status (Some d)) st) =
           timers st @ [(ReportRequest, 500)] \<and>
         requests (sendMessage_resume_v2 loadingId (Response True status (Some d)) st) = requests st \<and>
         username (sendMessage_resume_v2 loadingId (Response True status (Some d)) st) = username st \<and>
         requests (snd (report_callback st')) = requests st' @ [chat_request [] (username st')] \<and>
         req_url (chat_request [] (username st')) = ''/api/chat'' \<and>
         req_method (chat_request [] (username st')) = ''POST'' \<and>
         req_message (chat_request [] (username st')) = [] \<and>
         req_username (chat_request [] (username st')) = username st' \<and>
         timers (snd (report_callback st')) = timers st' \<and>
         username (snd (report_callback st')) = username st' \<and>
         chatLog (report_settled loadingId2 (Response ok2 status2 (Some d2)) st'') =
           map_option (\<lambda>ns. remove_by_id loadingId2 ns @
                         [message_elem (msg_id (messageIdCounter st'')) Bot
                            (message_content_v2 Bot (or_string (data_reply d2) [])
                               (or_null (data_image d2)))])
             (chatLog st'') \<and>
         textContent (message_elem (msg_id (messageIdCounter st'')) Bot
                        (message_content_v2 Bot (or_string (data_reply d2) [])
                           (or_null (data_image d2)))) = or_string (data_reply d2) [] \<and>
         requests (report_settled loadingId2 result2 st'') = requests st'' \<and>
         timers (report_settled loadingId2 result2 st'') = timers st'' \<and>
         (\<forall>result.
            (\<forall>status' d'. result = Response True status' (Some d') \<longrightarrow>
                           needs_report_generation d' \<noteq> Some True) \<longrightarrow>
            timers (sendMessage_resume_v2 loadingId result st) = timers st \<and>
            requests (sendMessage_resume_v2 loadingId result st) = requests st) \<and>
         (\<forall>result.
            timers (sendMessage_resume serialize loadingId result st) = timers st \<and>
            requests (sendMessage_resume serialize loadingId result st) = requests st)"
  using resume_v2_flag [OF assms]
  by (intro conjI allI impI)
     (simp_all add: resume_v2_username report_callback_fields report_settled_fields
        resume_v2_no_flag resume_requests textContent_message_v2 chat_request_def
        del: message_content_v2.simps)

theorem report_follow_up_witness:
  "needs_report_generation report_flag_data = Some True \<and>
   timers (sendMessage_v2 False (Response True 200 (Some report_flag_data)) fresh_page) =
     [(ReportRequest, 500)] \<and>
   requests (sendMessage_v2 False (Response True 200 (Some report_flag_data)) fresh_page) =
     [chat_request (ascii ''hello'') (Some (ascii ''mina''))] \<and>
   requests (snd (report_callback
                    (sendMessage_v2 False (Response True 200 (Some report_flag_data)) fresh_page))) =
     [chat_request (ascii ''hello'') (Some (ascii ''mina'')), chat_request [] (Some (ascii ''mina''))]"
proof -
  have h: "needs_report_generation report_flag_data = Some True"
    by (simp add: report_flag_data_def)
  let ?st1 = "(snd (appendMessage_v2 Bot thinking_text None
                 ((snd (appendMessage_v2 User (ascii ''hello'') None fresh_page))
                    \<lparr>userMessageInput := Some []\<rparr>)))
              \<lparr>requests := [chat_request (ascii ''hello'') (Some (ascii ''mina''))]\<rparr>"
  have b: "sendMessage_begin_v2 False fresh_page = Awaiting (msg_id 1) ?st1"
    by (simp add: sendMessage_begin_v2_def show_loading_and_fetch_v2_Awaiting trim_def
          is_whitespace_def ascii_def fresh_page_def Let_def)
  have s: "sendMessage_v2 False (Response True 200 (Some report_flag_data)) fresh_page =
           sendMessage_resume_v2 (msg_id 1) (Response True 200 (Some report_flag_data)) ?st1"
    by (simp add: sendMessage_v2_def b)
  have t: "timers ?st1 = []" "requests ?st1 = [chat_request (ascii ''hello'') (Some (ascii ''mina''))]"
    "username ?st1 = Some (ascii ''mina'')"
    by (simp_all add: fresh_page_def)
  from report_follow_up [OF h, of "msg_id 1" 200 ?st1
      "sendMessage_resume_v2 (msg_id 1) (Response True 200 (Some report_flag_data)) ?st1"]
  show ?thesis unfolding s using h t by simp
qed

text \<open>
  The claim as it stands fails on the first script: the reply asks for the report and has
  no recommendation, yet the only request ever issued is the user's own, and no timer is
  pending.
\<close>

theorem report_follow_up_counterexample:
  "needs_report_generation report_flag_data = Some True \<and>
   program_recommendation report_flag_data = None \<and>
   requests (sendMessage plain_serialize False (Response True 200 (Some report_flag_data)) fresh_page) =
     [chat_request (ascii ''hello'') (Some (ascii ''mina''))] \<and>
   timers (sendMessage plain_serialize False (Response True 200 (Some report_flag_data)) fresh_page) = []"
proof -
  have "sendMessage plain_serialize False (Response True 200 (Some report_flag_data)) fresh_page =
        sendMessage_resume plain_serialize (msg_id 1) (Response True 200 (Some report_flag_data))
          (waiting_page\<lparr>userMessageInput := Some [],
             requests := [chat_request (ascii ''hello'') (Some (ascii ''mina''))]\<rparr>)"
    by (simp add: sendMessage_def begin_fresh_page)
  then show ?thesis
    by (simp add: resume_requests report_flag_data_def waiting_page_def fresh_page_def)
qed


section \<open>The composite index and its tier\<close>


lemma composite_index_sum:
  "composite_index s =
     30 / 100 * s Attachment + 25 / 100 * s Regret + 20 / 100 * s Unresolved +
     15 / 100 * s Comparison + 10 / 100 * s Avoidance"
  by (simp add: composite_index_def dimensions_def)

lemma weights_sum: "sum_list (map weight dimensions) = 1"
  by (simp add: dimensions_def)

lemma valid_scores_iff: "valid_scores s \<longleftrightarrow> (\<forall>d. 0 \<le> s d \<and> s d \<le> 100)"
proof
  assume v: "valid_scores s"
  show "\<forall>d. 0 \<le> s d \<and> s d \<le> 100"
  proof
    fix d show "0 \<le> s d \<and> s d \<le> 100"
      using v by (cases d) (simp_all add: valid_scores_def dimensions_def)
  qed
qed (simp add: valid_scores_def dimensions_def)

text \<open>
  Claim C3. For scores between 0 and 100, the composite index is
  0.30 attachment + 0.25 regret + 0.20 unresolved + 0.15 comparison + 0.10 avoidance;
  the five weights add up to 1, and the index lies between 0 and 100.
\<close>

theorem composite_index_weighted_sum:
  assumes "valid_scores s"
  shows "composite_index s =
           0.30 * s Attachment + 0.25 * s Regret + 0.20 * s Unresolved +
           0.15 * s Comparison + 0.10 * s Avoidance \<and>
         sum_list (map weight dimensions) = 1 \<and>
         0 \<le> composite_index s \<and> composite_index s \<le> 100"
proof -
  from assms have b: "0 \<le> s d \<and> s d \<le> 100" for d by (simp add: valid_scores_iff)
  have e: "composite_index s =
     30 / 100 * s Attachment + 25 / 100 * s Regret + 20 / 100 * s Unresolved +
     15 / 100 * s Comparison + 10 / 100 * s Avoidance" by (rule composite_index_sum)
  have "0 \<le> composite_index s"
    unfolding e using b [of Attachment] b [of Regret] b [of Unresolved] b [of Comparison]
      b [of Avoidance] by simp
  moreover have "composite_index s \<le> 100"
    unfolding e using b [of Attachment] b [of Regret] b [of Unresolved] b [of Comparison]
      b [of Avoidance] by simp
  ultimately show ?thesis using e weights_sum by simp
qed

theorem composite_index_weighted_sum_witness:
  "valid_scores example_scores \<and> composite_index example_scores = 65.5 \<and>
   0 \<le> composite_index example_scores \<and> composite_index example_scores \<le> 100"
proof -
  have v: "valid_scores example_scores" by (simp add: valid_scores_def dimensions_def)
  from composite_index_weighted_sum [OF v] v show ?thesis by simp
qed

lemma tier_of_in_band:
  assumes "0 \<le> x" and "x \<le> 100"
  shows "in_band t x \<longleftrightarrow> tier_of x = t"
  using assms by (cases t) (auto simp: in_band_def tier_of_def tiers_def)

lemma tier_of_whole:
  assumes "0 \<le> n" and "n \<le> 100"
  shows "tier_of (real_of_int n) = t \<longleftrightarrow> band_from t \<le> n \<and> n \<le> band_to t"
  using assms by (cases t) (auto simp: tier_of_def)

text \<open>
  Claim C4. Every index between 0 and 100 lies in exactly one band, the one the lookup
  returns. The bands are those of the ascending lookup with inclusive upper bounds:
  from 0 to 20, above 20 to 40, above 40 to 60, above 60 to 80, above 80 to 100; on
  whole numbers they are the table's 0-20, 21-40, 41-60, 61-80 and 81-100. The boundary
  values 20, 40, 60 and 80 go to the lower band.
\<close>

theorem tier_lookup_total:
  assumes "0 \<le> x" and "x \<le> 100"
  shows "(\<exists>!t. in_band t x) \<and> in_band (tier_of x) x \<and>
         (\<forall>t. in_band t x \<longleftrightarrow>
            (case t of
               Settled \<Rightarrow> 0 \<le> x \<and> x \<le> 20
             | Lingering \<Rightarrow> 20 < x \<and> x \<le> 40
             | Moderate \<Rightarrow> 40 < x \<and> x \<le> 60
             | Strong \<Rightarrow> 60 < x \<and> x \<le> 80
             | VeryStrong \<Rightarrow> 80 < x \<and> x \<le> 100)) \<and>
         (\<forall>n t. x = real_of_int n \<longrightarrow> (tier_of x = t \<longleftrightarrow> band_from t \<le> n \<and> n \<le> band_to t)) \<and>
         tier_of 20 = Settled \<and> tier_of 40 = Lingering \<and> tier_of 60 = Moderate \<and>
         tier_of 80 = Strong \<and> tier_of 0 = Settled \<and> tier_of 100 = VeryStrong"
proof (intro conjI allI impI)
  show "\<exists>!t. in_band t x" using tier_of_in_band [OF assms] by auto
  show "in_band (tier_of x) x" using tier_of_in_band [OF assms] by simp
  show "in_band t x \<longleftrightarrow>
            (case t of
               Settled \<Rightarrow> 0 \<le> x \<and> x \<le> 20
             | Lingering \<Rightarrow> 20 < x \<and> x \<le> 40
             | Moderate \<Rightarrow> 40 < x \<and> x \<le> 60
             | Strong \<Rightarrow> 60 < x \<and> x \<le> 80
             | VeryStrong \<Rightarrow> 80 < x \<and> x \<le> 100)" for t
    using assms by (cases t) (auto simp: in_band_def tiers_def)
  show "tier_of x = t \<longleftrightarrow> band_from t \<le> n \<and> n \<le> band_to t" if "x = real_of_int n" for n t
    using assms that tier_of_whole [of n t] by simp
qed (simp_all add: tier_of_def)

theorem tier_lookup_total_witness:
  "(0::real) \<le> 20.5 \<and> (20.5::real) \<le> 100 \<and> tier_of 20.5 = Lingering \<and> in_band Lingering 20.5 \<and>
   \<not> in_band Settled 20.5 \<and> tier_of 20 = Settled \<and> tier_of 65.5 = Strong"
proof -
  have h: "(0::real) \<le> 20.5" "(20.5::real) \<le> 100" by simp_all
  have t: "tier_of 20.5 = Lingering" "tier_of 65.5 = Strong" by (simp_all add: tier_of_def)
  from tier_lookup_total [OF h] t h show ?thesis by simp
qed


section \<open>Retrieval\<close>

lemma retrieve_take:
  "retrieve embedder sim passages query top_k threshold =
     take top_k (sort_key (\<lambda>h. - score h)
       (filter (\<lambda>h. threshold \<le> score h) (map (scored sim (embedder query)) passages)))"
  by (simp add: retrieve_def)

lemma ranked_descending:
  "sorted_wrt (\<lambda>a b. score b \<le> score a) (sort_key (\<lambda>h. - score h) hs)"
proof -
  have "sorted (map (\<lambda>h. - score h) (sort_key (\<lambda>h. - score h) hs))"
    by (rule sorted_sort_key)
  then show ?thesis by (simp add: sorted_map)
qed

lemma sorted_wrt_take_keeps: "sorted_wrt R xs \<Longrightarrow> sorted_wrt R (take n xs)"
proof -
  assume "sorted_wrt R xs"
  then have "sorted_wrt R (take n xs @ drop n xs)" by simp
  then show ?thesis unfolding sorted_wrt_append by blast
qed

lemma take_or_dominated:
  assumes "sorted_wrt (\<lambda>a b. score b \<le> score a) xs" and "h \<in> set xs"
  shows "h \<in> set (take n xs) \<or>
         (length (take n xs) = n \<and> (\<forall>g \<in> set (take n xs). score h \<le> score g))"
proof (cases "h \<in> set (take n xs)")
  case True
  then show ?thesis by simp
next
  case False
  have split: "xs = take n xs @ drop n xs" by simp
  with assms(2) False have d: "h \<in> set (drop n xs)"
    by (metis Un_iff set_append)
  then have "drop n xs \<noteq> []" by auto
  then have len: "length (take n xs) = n" by simp
  from assms(1) have "sorted_wrt (\<lambda>a b. score b \<le> score a) (take n xs @ drop n xs)" by simp
  then have "\<forall>g \<in> set (take n xs). \<forall>k \<in> set (drop n xs). score k \<le> score g"
    unfolding sorted_wrt_append by blast
  with d len show ?thesis by blast
qed

text \<open>
  Claim C5. Whatever the query, every entry that \<open>retrieve\<close> returns is an indexed passage
  with its similarity, and that similarity is at least the threshold; the similarities
  do not increase along the list; the list has at most \<open>top_k\<close> entries, and as many as
  \<open>top_k\<close> and the number of passages that clear the threshold allow; a passage that
  clears the threshold is left out only when \<open>top_k\<close> entries that are no less similar
  are returned; and when no passage clears the threshold the result is the empty list.
\<close>

theorem retrieve_ordered_above_threshold:
  "(\<forall>h \<in> set (retrieve embedder sim passages query top_k threshold). threshold \<le> score h) \<and>
   sorted_wrt (\<lambda>a b. score b \<le> score a) (retrieve embedder sim passages query top_k threshold) \<and>
   length (retrieve embedder sim passages query top_k threshold) \<le> top_k \<and>
   length (retrieve embedder sim passages query top_k threshold) =
     min top_k (length (filter (\<lambda>p. threshold \<le> sim (embedder query) (passage_embedding p)) passages)) \<and>
   (\<forall>h \<in> set (retrieve embedder sim passages query top_k threshold).
      \<exists>p \<in> set passages. h = scored sim (embedder query) p) \<and>
   (\<forall>p \<in> set passages. threshold \<le> sim (embedder query) (passage_embedding p) \<longrightarrow>
      scored sim (embedder query) p \<in> set (retrieve embedder sim passages query top_k threshold) \<or>
      (length (retrieve embedder sim passages query top_k threshold) = top_k \<and>
       (\<forall>g \<in> set (retrieve embedder sim passages query top_k threshold).
          sim (embedder query) (passage_embedding p) \<le> score g))) \<and>
   ((\<forall>p \<in> set passages. sim (embedder query) (passage_embedding p) < threshold) \<longrightarrow>
      retrieve embedder sim passages query top_k threshold = [])"
proof -
  let ?q = "embedder query"
  let ?kept = "filter (\<lambda>h. threshold \<le> score h) (map (scored sim ?q) passages)"
  let ?ranked = "sort_key (\<lambda>h. - score h) ?kept"
  let ?res = "retrieve embedder sim passages query top_k threshold"
  have res: "?res = take top_k ?ranked" by (rule retrieve_take)
  have set_ranked: "set ?ranked = set ?kept" by simp
  have sub: "set ?res \<subseteq> set ?kept"
    unfolding res using set_take_subset [of top_k ?ranked] set_ranked by simp
  have 1: "\<forall>h \<in> set ?res. threshold \<le> score h" using sub by auto
  have desc: "sorted_wrt (\<lambda>a b. score b \<le> score a) ?ranked" by (rule ranked_descending)
  have 2: "sorted_wrt (\<lambda>a b. score b \<le> score a) ?res"
    unfolding res using desc by (rule sorted_wrt_take_keeps)
  have 4: "length ?res =
     min top_k (length (filter (\<lambda>p. threshold \<le> sim ?q (passage_embedding p)) passages))"
    unfolding res by (simp add: comp_def score_def scored_def min.commute)
  then have 3: "length ?res \<le> top_k" by simp
  have 5: "\<forall>h \<in> set ?res. \<exists>p \<in> set passages. h = scored sim ?q p" using sub by auto
  have 6: "scored sim ?q p \<in> set ?res \<or>
      (length ?res = top_k \<and> (\<forall>g \<in> set ?res. sim ?q (passage_embedding p) \<le> score g))"
    if "p \<in> set passages" and "threshold \<le> sim ?q (passage_embedding p)" for p
  proof -
    have sc: "score (scored sim ?q p) = sim ?q (passage_embedding p)"
      by (simp add: score_def scored_def)
    have "scored sim ?q p \<in> set ?kept" using that by (simp add: sc)
    then have "scored sim ?q p \<in> set ?ranked" by simp
    from take_or_dominated [OF desc this, of top_k] show ?thesis
      unfolding res sc .
  qed
  have 7: "?res = []" if "\<forall>p \<in> set passages. sim ?q (passage_embedding p) < threshold"
  proof -
    have "?kept = []" using that by (auto simp: filter_empty_conv score_def scored_def)
    then show ?thesis unfolding res by simp
  qed
  from 1 2 3 4 5 6 7 show ?thesis by blast
qed

theorem retrieve_ordered_above_threshold_witness:
  "retrieve example_embedder example_similarity example_passages ''q'' 5 (45 / 100) =
     [(''same'', 1, ''template''), (''close'', 1 / 2, ''pattern'')] \<and>
   length (retrieve example_embedder example_similarity example_passages ''q'' 5 (45 / 100)) \<le> 5 \<and>
   retrieve example_embedder example_similarity example_passages ''q'' 1 (45 / 100) =
     [(''same'', 1, ''template'')] \<and>
   length (retrieve example_embedder example_similarity example_passages ''q'' 1 (45 / 100)) = 1 \<and>
   retrieve example_embedder example_similarity example_passages ''q'' 5 2 = []"
proof -
  have a: "retrieve example_embedder example_similarity example_passages ''q'' 5 (45 / 100) =
     [(''same'', 1, ''template''), (''close'', 1 / 2, ''pattern'')]"
    by (simp add: retrieve_def example_passages_def scored_def score_def)
  have b: "retrieve example_embedder example_similarity example_passages ''q'' 1 (45 / 100) =
     [(''same'', 1, ''template'')]"
    by (simp add: retrieve_def example_passages_def scored_def score_def)
  have c: "\<forall>p \<in> set example_passages.
             example_similarity (example_embedder ''q'') (passage_embedding p) < 2"
    by (simp add: example_passages_def)
  from retrieve_ordered_above_threshold
    [of example_embedder example_similarity example_passages "''q''" 5 "45 / 100"]
  have d: "length (retrieve example_embedder example_similarity example_passages ''q'' 5 (45 / 100)) \<le> 5"
    by blast
  from retrieve_ordered_above_threshold
    [of example_embedder example_similarity example_passages "''q''" 5 2] c
  have e: "retrieve example_embedder example_similarity example_passages ''q'' 5 2 = []"
    by blast
  from a b d e show ?thesis by simp
qed

end
